theory Spec2Isabelle
  imports Complex_Main
begin

section \<open>The tool-metrics hook (hooks/tool-metrics.js)\<close>

text \<open>
  A shallow embedding of the metrics pipeline of \<^verbatim>\<open>hooks/tool-metrics.js\<close>: the session
  resolver, the context builder, the metric extractor, the metrics sink, the productivity
  aggregator and the orchestrator \<^verbatim>\<open>main\<close>.

  Conventions of the embedding.
  \<^item> A JavaScript number is a real number (a counter is an \<open>int\<close>); rounding of doubles,
    \<^verbatim>\<open>NaN\<close> and the infinities are not part of the model.
  \<^item> A JavaScript string is a \<open>string\<close>; a \<open>char\<close> stands for one code unit below 256.
  \<^item> An exception is a value: a function that can throw returns \<open>exn + 'a\<close>, with
    \<open>Inl\<close> the exception thrown and \<open>Inr\<close> the value returned. The functions of this
    file throw \<^verbatim>\<open>Error\<close> objects; the module outside it can throw any value.
  \<^item> The file system is a record \<open>disk\<close> that the functions take and return; each
    file operation of the source can fail, as the disk says.
  \<^item> Output to the console is not modelled.
\<close>

subsection \<open>JavaScript values\<close>

text \<open>The values a parsed JSON tool input can hold, and \<^verbatim>\<open>undefined\<close>.\<close>

datatype jsval =
    JUndefined
  | JNull
  | JBool bool
  | JNum real
  | JStr string
  | JArr "jsval list"
  | JObj "(string \<times> jsval) list"

text \<open>
  An \<^verbatim>\<open>Error\<close> object, with its message: the errors that the engine and the \<^verbatim>\<open>fs\<close>
  and \<^verbatim>\<open>path\<close> modules throw.
\<close>

datatype exn = TypeError string | IOError string

fun message :: "exn \<Rightarrow> string" where
  "message (TypeError m) = m"
| "message (IOError m) = m"

text \<open>
  A value that code outside this file throws or rejects with: an \<^verbatim>\<open>Error\<close> object or any
  other value, \<^verbatim>\<open>undefined\<close> and \<^verbatim>\<open>null\<close> among them.
\<close>

datatype thrown = ErrorObject exn | NonError jsval

text \<open>Truthiness, as \<^verbatim>\<open>if (x)\<close>, \<^verbatim>\<open>!x\<close> and \<^verbatim>\<open>x || y\<close> read a value.\<close>

fun truthy :: "jsval \<Rightarrow> bool" where
  "truthy JUndefined = False"
| "truthy JNull = False"
| "truthy (JBool b) = b"
| "truthy (JNum r) = (r \<noteq> 0)"
| "truthy (JStr s) = (s \<noteq> [])"
| "truthy (JArr xs) = True"
| "truthy (JObj kvs) = True"

text \<open>\<^verbatim>\<open>a || b\<close> on values.\<close>

definition js_or :: "jsval \<Rightarrow> jsval \<Rightarrow> jsval" where
  "js_or a b = (if truthy a then a else b)"

text \<open>\<^verbatim>\<open>s || d\<close> where \<open>s\<close> is a string or \<^verbatim>\<open>undefined\<close> and \<open>d\<close> a string.\<close>

definition str_or :: "string option \<Rightarrow> string \<Rightarrow> string" where
  "str_or s d = (case s of None \<Rightarrow> d | Some v \<Rightarrow> if v = [] then d else v)"

text \<open>
  \<^verbatim>\<open>obj.key\<close> on an object given by its own properties in enumeration order: a key the
  object does not have reads as \<^verbatim>\<open>undefined\<close>.
\<close>

definition get_prop :: "(string \<times> jsval) list \<Rightarrow> string \<Rightarrow> jsval" where
  "get_prop obj k = (case map_of obj k of None \<Rightarrow> JUndefined | Some v \<Rightarrow> v)"

text \<open>
  \<^verbatim>\<open>error.message\<close> on a caught value. Reading a property of \<^verbatim>\<open>undefined\<close> or of
  \<^verbatim>\<open>null\<close> throws a \<^verbatim>\<open>TypeError\<close>; a value without the property reads as
  \<^verbatim>\<open>undefined\<close>.
\<close>

fun read_message :: "thrown \<Rightarrow> exn + jsval" where
  "read_message (ErrorObject e) = Inr (JStr (message e))"
| "read_message (NonError JUndefined) =
     Inl (TypeError ''Cannot read properties of undefined (reading message)'')"
| "read_message (NonError JNull) =
     Inl (TypeError ''Cannot read properties of null (reading message)'')"
| "read_message (NonError (JObj kvs)) = Inr (get_prop kvs ''message'')"
| "read_message (NonError v) = Inr JUndefined"

text \<open>\<^verbatim>\<open>Object.keys(obj)\<close>.\<close>

definition object_keys :: "(string \<times> jsval) list \<Rightarrow> string list" where
  "object_keys obj = map fst obj"

text \<open>\<^verbatim>\<open>x.length\<close>: strings and arrays have one, the other values read \<^verbatim>\<open>undefined\<close>.\<close>

fun js_length :: "jsval \<Rightarrow> jsval" where
  "js_length (JStr s) = JNum (real (length s))"
| "js_length (JArr xs) = JNum (real (length xs))"
| "js_length v = JUndefined"

subsection \<open>Strings\<close>

definition newline :: char where
  "newline = CHR 0x0A"

definition space :: char where
  "space = CHR 0x20"

text \<open>
  \<^verbatim>\<open>s.split(sep)\<close> for a separator of one character: the segments of \<open>s\<close> between the
  occurrences of \<open>sep\<close>. The empty string splits into one empty segment.
\<close>

fun js_split :: "char \<Rightarrow> string \<Rightarrow> string list" where
  "js_split sep [] = [[]]"
| "js_split sep (c # cs) =
     (if c = sep then [] # js_split sep cs
      else (case js_split sep cs of
              [] \<Rightarrow> [[c]]
            | w # ws \<Rightarrow> (c # w) # ws))"

text \<open>\<^verbatim>\<open>segments.join(sep)\<close>, the inverse of the split.\<close>

fun js_join :: "char \<Rightarrow> string list \<Rightarrow> string" where
  "js_join sep [] = []"
| "js_join sep [w] = w"
| "js_join sep (w # v # ws) = w @ sep # js_join sep (v # ws)"

text \<open>\<^verbatim>\<open>arr[0]\<close> on the result of a split: \<^verbatim>\<open>undefined\<close> on an empty array.\<close>

definition first_element :: "string list \<Rightarrow> jsval" where
  "first_element segs = (case segs of [] \<Rightarrow> JUndefined | w # ws \<Rightarrow> JStr w)"

text \<open>
  The white space and line terminators that \<^verbatim>\<open>trim()\<close> removes, among the code units
  below 256: tab, line feed, vertical tab, form feed, carriage return, space and the
  no-break space.
\<close>

definition is_js_whitespace :: "char \<Rightarrow> bool" where
  "is_js_whitespace c =
     (c = CHR 0x09 \<or> c = CHR 0x0A \<or> c = CHR 0x0B \<or> c = CHR 0x0C \<or> c = CHR 0x0D
      \<or> c = CHR 0x20 \<or> c = CHR 0xA0)"

definition js_trim :: "string \<Rightarrow> string" where
  "js_trim s = rev (dropWhile is_js_whitespace (rev (dropWhile is_js_whitespace s)))"

text \<open>
  The expression \<^verbatim>\<open>x ? x.split('\n').length : 0\<close> of the Edit and Write extractors,
  on a string first. A truthy value that is not a string has no \<^verbatim>\<open>split\<close> method:
  the call throws.
\<close>

definition string_line_count :: "string \<Rightarrow> int" where
  "string_line_count s = (if s = [] then 0 else int (length (js_split newline s)))"

fun line_count :: "jsval \<Rightarrow> exn + int" where
  "line_count (JStr s) = Inr (string_line_count s)"
| "line_count v =
     (if truthy v then Inl (TypeError ''split is not a function'') else Inr 0)"

text \<open>
  \<^verbatim>\<open>String(v)\<close> of a value, which is also the property key \<^verbatim>\<open>obj[v]\<close> uses. The
  rendering of a number is the engine's, a parameter here.
\<close>

fun js_to_string :: "(real \<Rightarrow> string) \<Rightarrow> jsval \<Rightarrow> string" where
  "js_to_string nts JUndefined = ''undefined''"
| "js_to_string nts JNull = ''null''"
| "js_to_string nts (JBool b) = (if b then ''true'' else ''false'')"
| "js_to_string nts (JNum r) = nts r"
| "js_to_string nts (JStr s) = s"
| "js_to_string nts (JArr xs) =
     js_join (CHR '','')
       (map (\<lambda>x. if x = JUndefined \<or> x = JNull then [] else js_to_string nts x) xs)"
| "js_to_string nts (JObj kvs) = ''[object Object]''"

subsection \<open>The platform and the process\<close>

text \<open>
  What the hook takes from Node.js and from the process it runs in. The functions of the
  \<^verbatim>\<open>fs\<close> and \<^verbatim>\<open>path\<close> modules that the extractor calls are parameters:
  \<^verbatim>\<open>fs.existsSync\<close>, the \<^verbatim>\<open>size\<close> of \<^verbatim>\<open>fs.statSync\<close> (which can throw) and
  \<^verbatim>\<open>path.extname\<close>. So are the engine's rendering of a number as a string and the
  members that a plain object inherits from \<^verbatim>\<open>Object.prototype\<close> (\<^verbatim>\<open>constructor\<close>,
  \<^verbatim>\<open>toString\<close>, \<^verbatim>\<open>__proto__\<close> and the others): \<open>prototype_member k\<close> is the
  rendering \<^verbatim>\<open>String(Object.prototype[k])\<close> when \<open>k\<close> names one, and \<open>None\<close> for any
  other key. Every such member is a function or an object, hence truthy.
\<close>

record platform =
  existsSync :: "jsval \<Rightarrow> bool"
  statSync_size :: "jsval \<Rightarrow> exn + int"
  extname :: "string \<Rightarrow> string"
  number_to_string :: "real \<Rightarrow> string"
  prototype_member :: "string \<Rightarrow> string option"

text \<open>
  The process: the two environment variables, the clock (one reading of
  \<^verbatim>\<open>formatISO(new Date())\<close> and of \<^verbatim>\<open>toLocaleTimeString\<close> for the call), the
  high-resolution timer at the start and at the end of \<^verbatim>\<open>main\<close> in nanoseconds, the
  heap in use, and the descriptor of the runtime.
\<close>

record process =
  env_CLAUDE_SESSION_ID :: "string option"
  env_USER :: "string option"
  now_iso :: string
  now_locale_time :: string
  hrtime_start :: int
  hrtime_end :: int
  heapUsed :: int
  nodeVersion :: string
  os_platform :: string
  architecture :: string

subsection \<open>Event records\<close>

text \<open>
  The objects that the hook builds from object literals and hands to the sink. Every key
  that one of them can have is a field; \<open>None\<close> is a key the object does not have, so
  \<^verbatim>\<open>'k' in obj\<close> is \<open>k obj \<noteq> None\<close>.
\<close>

record event =
  event_type :: "string option"
  timestamp :: "string option"
  tool_name :: "string option"
  success :: "bool option"
  execution_time_ms :: "int option"
  user :: "string option"
  session_id :: "string option"
  file_path :: "jsval option"
  file_size_bytes :: "int option"
  lines_requested :: "jsval option"
  lines_added :: "int option"
  lines_removed :: "int option"
  net_lines :: "int option"
  replace_all :: "jsval option"
  content_length :: "jsval option"
  lines_written :: "int option"
  file_type :: "string option"
  command :: "jsval option"
  command_type :: "jsval option"
  background :: "jsval option"
  timeout :: "jsval option"
  subagent_type :: "jsval option"
  task_description :: "jsval option"
  delegation :: "bool option"
  generic_tool :: "bool option"
  input_keys :: "string list option"
  error :: "bool option"
  error_message :: "string option"
  agent_name :: "jsval option"

text \<open>The empty object \<^verbatim>\<open>{}\<close>.\<close>

definition empty_object :: event where
  "empty_object =
     \<lparr>event_type = None, timestamp = None, tool_name = None, success = None,
      execution_time_ms = None, user = None, session_id = None, file_path = None,
      file_size_bytes = None, lines_requested = None, lines_added = None,
      lines_removed = None, net_lines = None, replace_all = None, content_length = None,
      lines_written = None, file_type = None, command = None, command_type = None,
      background = None, timeout = None, subagent_type = None, task_description = None,
      delegation = None, generic_tool = None, input_keys = None, error = None,
      error_message = None, agent_name = None\<rparr>"

text \<open>One key of \<^verbatim>\<open>Object.assign(target, source)\<close>: the source's value where it has the key.\<close>

definition assign_key :: "'a option \<Rightarrow> 'a option \<Rightarrow> 'a option" where
  "assign_key t s = (case s of None \<Rightarrow> t | Some v \<Rightarrow> Some v)"

definition object_assign :: "event \<Rightarrow> event \<Rightarrow> event" where
  "object_assign t s =
     \<lparr>event_type = assign_key (event_type t) (event_type s),
      timestamp = assign_key (timestamp t) (timestamp s),
      tool_name = assign_key (tool_name t) (tool_name s),
      success = assign_key (success t) (success s),
      execution_time_ms = assign_key (execution_time_ms t) (execution_time_ms s),
      user = assign_key (user t) (user s),
      session_id = assign_key (session_id t) (session_id s),
      file_path = assign_key (file_path t) (file_path s),
      file_size_bytes = assign_key (file_size_bytes t) (file_size_bytes s),
      lines_requested = assign_key (lines_requested t) (lines_requested s),
      lines_added = assign_key (lines_added t) (lines_added s),
      lines_removed = assign_key (lines_removed t) (lines_removed s),
      net_lines = assign_key (net_lines t) (net_lines s),
      replace_all = assign_key (replace_all t) (replace_all s),
      content_length = assign_key (content_length t) (content_length s),
      lines_written = assign_key (lines_written t) (lines_written s),
      file_type = assign_key (file_type t) (file_type s),
      command = assign_key (command t) (command s),
      command_type = assign_key (command_type t) (command_type s),
      background = assign_key (background t) (background s),
      timeout = assign_key (timeout t) (timeout s),
      subagent_type = assign_key (subagent_type t) (subagent_type s),
      task_description = assign_key (task_description t) (task_description s),
      delegation = assign_key (delegation t) (delegation s),
      generic_tool = assign_key (generic_tool t) (generic_tool s),
      input_keys = assign_key (input_keys t) (input_keys s),
      error = assign_key (error t) (error s),
      error_message = assign_key (error_message t) (error_message s),
      agent_name = assign_key (agent_name t) (agent_name s)\<rparr>"

subsection \<open>Context builder\<close>

text \<open>
  The raw invocation: the tool's name and input object when given, the rendering
  \<^verbatim>\<open>String(error)\<close> of the error when the invocation carries a truthy one, and the measured
  execution time when given.
\<close>

record tool_data =
  toolName :: "string option"
  toolInput :: "(string \<times> jsval) list option"
  td_error :: "string option"
  executionTime :: "real option"

record hook_context =
  ctx_tool_name :: string
  ctx_tool_input :: "(string \<times> jsval) list"
  ctx_error :: "string option"
  ctx_timestamp :: string
  ctx_environment :: "string \<times> string \<times> string"

definition createPostToolUseContext :: "process \<Rightarrow> tool_data \<Rightarrow> hook_context" where
  "createPostToolUseContext pr toolData =
     \<lparr>ctx_tool_name = str_or (toolName toolData) ''unknown'',
      ctx_tool_input = (case toolInput toolData of None \<Rightarrow> [] | Some obj \<Rightarrow> obj),
      ctx_error = td_error toolData,
      ctx_timestamp = now_iso pr,
      ctx_environment = (nodeVersion pr, os_platform pr, architecture pr)\<rparr>"

subsection \<open>Metric extractor\<close>

text \<open>
  \<^verbatim>\<open>command ? command.split(' ')[0] : 'unknown'\<close> of the Bash branch.
\<close>

fun bash_command_type :: "jsval \<Rightarrow> exn + jsval" where
  "bash_command_type (JStr s) =
     Inr (if s = [] then JStr ''unknown'' else first_element (js_split space s))"
| "bash_command_type v =
     (if truthy v then Inl (TypeError ''split is not a function'')
      else Inr (JStr ''unknown''))"

text \<open>
  \<^verbatim>\<open>writeFilePath ? path.extname(writeFilePath) : 'unknown'\<close> of the Write branch:
  \<^verbatim>\<open>path.extname\<close> throws on an argument that is not a string.
\<close>

fun write_file_type :: "platform \<Rightarrow> jsval \<Rightarrow> exn + string" where
  "write_file_type pf (JStr p) = Inr (if p = [] then ''unknown'' else extname pf p)"
| "write_file_type pf v =
     (if truthy v then Inl (TypeError ''The path argument must be of type string'')
      else Inr ''unknown'')"

text \<open>
  The Read branch's file size: \<^verbatim>\<open>fs.existsSync(p) ? fs.statSync(p).size : 0\<close>, and 0 from
  the \<^verbatim>\<open>catch\<close> when \<^verbatim>\<open>statSync\<close> throws.
\<close>

definition read_file_size :: "platform \<Rightarrow> jsval \<Rightarrow> int" where
  "read_file_size pf filePath =
     (if existsSync pf filePath
      then (case statSync_size pf filePath of Inl e \<Rightarrow> 0 | Inr n \<Rightarrow> n)
      else 0)"

definition extractToolSpecificMetrics :: "platform \<Rightarrow> hook_context \<Rightarrow> exn + event" where
  "extractToolSpecificMetrics pf context =
     (let toolName = ctx_tool_name context;
          toolInput = ctx_tool_input context
      in
      if toolName = ''Read'' then
        (let filePath = js_or (get_prop toolInput ''file_path'') (JStr '''')
         in Inr (empty_object
              \<lparr>file_path := Some filePath,
               file_size_bytes := Some (read_file_size pf filePath),
               lines_requested := Some (js_or (get_prop toolInput ''limit'') (JStr ''all''))\<rparr>))
      else if toolName = ''Edit'' then
        (let editFilePath = js_or (get_prop toolInput ''file_path'') (JStr '''');
             oldString = js_or (get_prop toolInput ''old_string'') (JStr '''');
             newString = js_or (get_prop toolInput ''new_string'') (JStr '''')
         in case line_count oldString of
              Inl e \<Rightarrow> Inl e
            | Inr linesRemoved \<Rightarrow>
                (case line_count newString of
                   Inl e \<Rightarrow> Inl e
                 | Inr linesAdded \<Rightarrow>
                     Inr (empty_object
                       \<lparr>file_path := Some editFilePath,
                        lines_added := Some linesAdded,
                        lines_removed := Some linesRemoved,
                        net_lines := Some (linesAdded - linesRemoved),
                        replace_all :=
                          Some (js_or (get_prop toolInput ''replace_all'') (JBool False))\<rparr>)))
      else if toolName = ''Write'' then
        (let writeFilePath = js_or (get_prop toolInput ''file_path'') (JStr '''');
             content = js_or (get_prop toolInput ''content'') (JStr '''')
         in case line_count content of
              Inl e \<Rightarrow> Inl e
            | Inr linesWritten \<Rightarrow>
                (case write_file_type pf writeFilePath of
                   Inl e \<Rightarrow> Inl e
                 | Inr fileType \<Rightarrow>
                     Inr (empty_object
                       \<lparr>file_path := Some writeFilePath,
                        content_length := Some (js_length content),
                        lines_written := Some linesWritten,
                        file_type := Some fileType\<rparr>)))
      else if toolName = ''Bash'' then
        (let command = js_or (get_prop toolInput ''command'') (JStr '''')
         in case bash_command_type command of
              Inl e \<Rightarrow> Inl e
            | Inr commandType \<Rightarrow>
                Inr (empty_object
                  \<lparr>command := Some command,
                   command_type := Some commandType,
                   background :=
                     Some (js_or (get_prop toolInput ''run_in_background'') (JBool False)),
                   timeout := Some (js_or (get_prop toolInput ''timeout'') JNull)\<rparr>))
      else if toolName = ''Task'' then
        Inr (empty_object
          \<lparr>subagent_type := Some (js_or (get_prop toolInput ''subagent_type'') (JStr ''unknown'')),
           task_description := Some (js_or (get_prop toolInput ''description'') (JStr '''')),
           delegation := Some True\<rparr>)
      else
        Inr (empty_object
          \<lparr>generic_tool := Some True,
           input_keys := Some (object_keys toolInput)\<rparr>))"

subsection \<open>The local metrics store\<close>

text \<open>
  A file that is read: absent, present with its content, or present and failing to be
  read (or to be parsed, for a JSON document).
\<close>

datatype 'a file_read = Absent | Content 'a | ReadError exn

text \<open>
  A value stored under a tool or an agent in the indicators document: a number, or the
  string that \<^verbatim>\<open>+\<close> makes when the value looked up is not a number.
\<close>

datatype count = Count int | Text string

text \<open>
  The indicators document \<^verbatim>\<open>productivity-indicators.json\<close>. The two mappings are
  objects, given by their own entries in insertion order; a document can lack them.
\<close>

record indicators =
  session_start :: string
  commands_executed :: int
  tools_used :: "(string \<times> count) list option"
  files_modified :: int
  lines_changed :: int
  agents_invoked :: "(string \<times> count) list option"
  success_rate :: real
  last_activity :: "string option"

text \<open>
  The files under \<^verbatim>\<open>~/.ai-mesh/metrics\<close>. A \<open>fault\<close> field holds the exception that
  the operation named in it throws, when it does:
  \<^verbatim>\<open>ensureDir(metricsDir)\<close>, the append to \<^verbatim>\<open>tool-metrics.jsonl\<close>,
  \<^verbatim>\<open>ensureDir(realtimeDir)\<close>, the append to \<^verbatim>\<open>realtime/activity.log\<close>, the
  \<^verbatim>\<open>writeJSON\<close> of the indicators document and the append to \<^verbatim>\<open>realtime.log\<close>.
  A line of \<^verbatim>\<open>tool-metrics.jsonl\<close> is the record it serialises; a line of
  \<^verbatim>\<open>realtime.log\<close> is the four values its template interpolates.
\<close>

record disk =
  session_id_file :: "string file_read"
  metrics_dir_fault :: "exn option"
  tool_metrics_jsonl :: "event list"
  tool_metrics_jsonl_fault :: "exn option"
  realtime_dir_fault :: "exn option"
  activity_log :: "string list"
  activity_log_fault :: "exn option"
  indicators_json :: "indicators file_read"
  indicators_json_fault :: "exn option"
  dashboard_active :: bool
  realtime_log :: "(string \<times> string \<times> int \<times> int) list"
  realtime_log_fault :: "exn option"

subsection \<open>Session resolver\<close>

text \<open>\<^verbatim>\<open>!s\<close> for a string or \<^verbatim>\<open>undefined\<close>.\<close>

definition falsy_string :: "string option \<Rightarrow> bool" where
  "falsy_string s = (s = None \<or> s = Some [])"

definition getCurrentSessionId :: "process \<Rightarrow> disk \<Rightarrow> exn + string" where
  "getCurrentSessionId pr d =
     (let sessionId = env_CLAUDE_SESSION_ID pr;
          sessionId =
            (if falsy_string sessionId then
               (case session_id_file d of
                  Absent \<Rightarrow> sessionId
                | Content c \<Rightarrow> Some (js_trim c)
                | ReadError e \<Rightarrow> sessionId)
             else sessionId)
      in Inr (str_or sessionId ''default-session''))"

subsection \<open>Metrics sink\<close>

record outcome =
  out_success :: bool
  out_method :: string
  out_message :: "string option"
  out_error :: "jsval option"

text \<open>
  The module \<^verbatim>\<open>./metrics-api-client\<close>, a parameter: the value that
  \<^verbatim>\<open>new MetricsApiClient()\<close> throws when it does, and
  \<^verbatim>\<open>sendToBackendWithFallback\<close>, which is given the local fallback, the record and the
  disk, and returns an outcome or throws (rejects with) any value.
\<close>

record api =
  new_MetricsApiClient :: "thrown option"
  sendToBackendWithFallback ::
    "(event \<Rightarrow> disk \<Rightarrow> (exn + unit) \<times> disk) \<Rightarrow> event \<Rightarrow> disk \<Rightarrow> (thrown + outcome) \<times> disk"

text \<open>
  The line of the activity log. No record of this program has a \<^verbatim>\<open>status\<close> key, so
  \<^verbatim>\<open>metricsData.status || 'unknown'\<close> is \<^verbatim>\<open>'unknown'\<close>.
\<close>

definition activity_line :: "process \<Rightarrow> event \<Rightarrow> string" where
  "activity_line pr metricsData =
     str_or (timestamp metricsData) (now_iso pr) @ ''|tool_complete|''
       @ str_or (tool_name metricsData) ''unknown'' @ ''|'' @ ''unknown''"

definition localFallback :: "process \<Rightarrow> event \<Rightarrow> disk \<Rightarrow> (exn + unit) \<times> disk" where
  "localFallback pr metricsData d =
     (case metrics_dir_fault d of
        Some e \<Rightarrow> (Inl e, d)
      | None \<Rightarrow>
     (case tool_metrics_jsonl_fault d of
        Some e \<Rightarrow> (Inl e, d)
      | None \<Rightarrow>
     (let d1 = d\<lparr>tool_metrics_jsonl := tool_metrics_jsonl d @ [metricsData]\<rparr>
      in case realtime_dir_fault d1 of
        Some e \<Rightarrow> (Inl e, d1)
      | None \<Rightarrow>
     (case activity_log_fault d1 of
        Some e \<Rightarrow> (Inl e, d1)
      | None \<Rightarrow>
          (Inr (), d1\<lparr>activity_log := activity_log d1 @ [activity_line pr metricsData]\<rparr>)))))"

text \<open>The \<^verbatim>\<open>try\<close> block of \<^verbatim>\<open>logMetrics\<close>: the client is built, then the helper called.\<close>

definition remote_submission ::
  "api \<Rightarrow> process \<Rightarrow> event \<Rightarrow> disk \<Rightarrow> (thrown + outcome) \<times> disk" where
  "remote_submission a pr data d =
     (case new_MetricsApiClient a of
        Some e \<Rightarrow> (Inl e, d)
      | None \<Rightarrow> sendToBackendWithFallback a (localFallback pr) data d)"

text \<open>
  The inner \<^verbatim>\<open>try\<close> block (lines 63 to 70), entered with the caught value: the local
  fallback runs, then the outcome is built, and building it reads \<^verbatim>\<open>error.message\<close>.
  Either step can throw.
\<close>

definition fallback_attempt ::
  "process \<Rightarrow> event \<Rightarrow> thrown \<Rightarrow> disk \<Rightarrow> (exn + outcome) \<times> disk" where
  "fallback_attempt pr data err d1 =
     (case localFallback pr data d1 of
        (Inl fallbackError, d2) \<Rightarrow> (Inl fallbackError, d2)
      | (Inr u, d2) \<Rightarrow>
          (case read_message err of
             Inl fallbackError \<Rightarrow> (Inl fallbackError, d2)
           | Inr msg \<Rightarrow>
               (Inr \<lparr>out_success = True, out_method = ''local_fallback'',
                     out_message = Some ''API client failed, data stored locally'',
                     out_error = Some msg\<rparr>, d2)))"

text \<open>
  The function: the result of the remote submission, or, when that throws, the result of
  the inner \<^verbatim>\<open>try\<close>, whose exception the inner \<^verbatim>\<open>catch\<close> turns into the failed
  outcome.
\<close>

definition logMetrics :: "api \<Rightarrow> process \<Rightarrow> event \<Rightarrow> disk \<Rightarrow> (exn + outcome) \<times> disk" where
  "logMetrics a pr data d =
     (case remote_submission a pr data d of
        (Inr result, d1) \<Rightarrow> (Inr result, d1)
      | (Inl err, d1) \<Rightarrow>
          (case fallback_attempt pr data err d1 of
             (Inr out, d2) \<Rightarrow> (Inr out, d2)
           | (Inl fallbackError, d2) \<Rightarrow>
               (Inr \<lparr>out_success = False, out_method = ''local_fallback'',
                     out_message = Some ''Both API and local storage failed'',
                     out_error = Some (JStr (message fallbackError))\<rparr>, d2)))"

subsection \<open>Productivity aggregator\<close>

definition fresh_indicators :: "process \<Rightarrow> indicators" where
  "fresh_indicators pr =
     \<lparr>session_start = now_iso pr, commands_executed = 0, tools_used = Some [],
      files_modified = 0, lines_changed = 0, agents_invoked = Some [],
      success_rate = 100, last_activity = None\<rparr>"

text \<open>Load the existing indicators or initialise them; \<^verbatim>\<open>readJSON\<close> can throw.\<close>

definition load_indicators :: "process \<Rightarrow> disk \<Rightarrow> exn + indicators" where
  "load_indicators pr d =
     (case indicators_json d of
        Absent \<Rightarrow> Inr (fresh_indicators pr)
      | Content ind \<Rightarrow> Inr ind
      | ReadError e \<Rightarrow> Inl e)"

text \<open>
  \<^verbatim>\<open>counts[k]\<close> on a plain object: its own entry, else the member of that name that
  it inherits from \<^verbatim>\<open>Object.prototype\<close>, else \<^verbatim>\<open>undefined\<close>. Then
  \<^verbatim>\<open>(counts[k] || 0) + 1\<close>: a number is raised by 1 (0 and \<^verbatim>\<open>undefined\<close> give 1), a
  string that is not empty or an inherited member gets \<^verbatim>\<open>1\<close> appended to its rendering.
\<close>

definition next_count :: "platform \<Rightarrow> (string \<times> count) list \<Rightarrow> string \<Rightarrow> count" where
  "next_count pf counts k =
     (case map_of counts k of
        Some (Count c) \<Rightarrow> Count ((if c = 0 then 0 else c) + 1)
      | Some (Text s) \<Rightarrow> (if s = [] then Count 1 else Text (s @ ''1''))
      | None \<Rightarrow>
          (case prototype_member pf k of
             None \<Rightarrow> Count 1
           | Some rendering \<Rightarrow> Text (rendering @ ''1'')))"

text \<open>An own entry is replaced where the key exists, added last otherwise.\<close>

fun put :: "string \<Rightarrow> 'v \<Rightarrow> (string \<times> 'v) list \<Rightarrow> (string \<times> 'v) list" where
  "put k v [] = [(k, v)]"
| "put k v ((k', v') # kvs) = (if k = k' then (k, v) # kvs else (k', v') # put k v kvs)"

text \<open>
  \<^verbatim>\<open>counts[k] = v\<close> for a number or a string \<open>v\<close>. Where the object has no own entry
  \<^verbatim>\<open>__proto__\<close>, an assignment to that key goes to the inherited setter, which ignores
  a value that is not an object: nothing is stored.
\<close>

definition store_count :: "string \<Rightarrow> count \<Rightarrow> (string \<times> count) list \<Rightarrow> (string \<times> count) list" where
  "store_count k v counts =
     (if k = ''__proto__'' \<and> map_of counts k = None then counts else put k v counts)"

text \<open>
  The update of the loaded document by one record (lines 156 to 188 of the source), one
  definition for each statement, in the order of the source.
\<close>

definition count_command :: "event \<Rightarrow> indicators \<Rightarrow> indicators" where
  "count_command metrics ind =
     ind\<lparr>commands_executed := commands_executed ind + 1,
         last_activity := timestamp metrics\<rparr>"

text \<open>The property key that \<^verbatim>\<open>metrics.tool_name\<close> makes.\<close>

definition tool_key :: "event \<Rightarrow> string" where
  "tool_key metrics = (case tool_name metrics of None \<Rightarrow> ''undefined'' | Some n \<Rightarrow> n)"

definition count_tool :: "platform \<Rightarrow> event \<Rightarrow> indicators \<Rightarrow> indicators" where
  "count_tool pf metrics ind =
     (let toolName = tool_key metrics;
          tools = (case tools_used ind of None \<Rightarrow> [] | Some t \<Rightarrow> t)
      in ind\<lparr>tools_used :=
              Some (store_count toolName (next_count pf tools toolName) tools)\<rparr>)"

definition count_file :: "event \<Rightarrow> indicators \<Rightarrow> indicators" where
  "count_file metrics ind =
     (if (tool_name metrics = Some ''Edit'' \<or> tool_name metrics = Some ''Write'')
         \<and> file_path metrics \<noteq> None
      then ind\<lparr>files_modified := files_modified ind + 1\<rparr>
      else ind)"

definition count_lines :: "event \<Rightarrow> indicators \<Rightarrow> indicators" where
  "count_lines metrics ind =
     (case net_lines metrics of
        Some n \<Rightarrow> ind\<lparr>lines_changed := lines_changed ind + \<bar>n\<bar>\<rparr>
      | None \<Rightarrow>
          (case lines_written metrics of
             Some n \<Rightarrow> ind\<lparr>lines_changed := lines_changed ind + n\<rparr>
           | None \<Rightarrow> ind))"

definition count_agent :: "platform \<Rightarrow> event \<Rightarrow> indicators \<Rightarrow> indicators" where
  "count_agent pf metrics ind =
     (case subagent_type metrics of
        None \<Rightarrow> ind
      | Some a \<Rightarrow>
          if truthy a then
            (let agent = js_to_string (number_to_string pf) a;
                 agents = (case agents_invoked ind of None \<Rightarrow> [] | Some t \<Rightarrow> t)
             in ind\<lparr>agents_invoked :=
                     Some (store_count agent (next_count pf agents agent) agents)\<rparr>)
          else ind)"

definition adjust_success_rate :: "event \<Rightarrow> indicators \<Rightarrow> indicators" where
  "adjust_success_rate metrics ind =
     (let totalCommands = commands_executed ind
      in if totalCommands > 0 then
           (if success metrics \<noteq> Some True
            then ind\<lparr>success_rate :=
                       max 0 (success_rate ind - 1 / real_of_int totalCommands)\<rparr>
            else ind)
         else ind)"

definition update_indicators :: "platform \<Rightarrow> event \<Rightarrow> indicators \<Rightarrow> indicators" where
  "update_indicators pf metrics ind =
     adjust_success_rate metrics
       (count_agent pf metrics
          (count_lines metrics
             (count_file metrics
                (count_tool pf metrics
                   (count_command metrics ind)))))"

text \<open>
  The whole function: every exception is caught and logged, and the document on disk is
  then left as it was.
\<close>

definition updateProductivityIndicators ::
  "platform \<Rightarrow> process \<Rightarrow> event \<Rightarrow> disk \<Rightarrow> disk" where
  "updateProductivityIndicators pf pr metrics d =
     (case load_indicators pr d of
        Inl e \<Rightarrow> d
      | Inr loaded \<Rightarrow>
          (let ind = update_indicators pf metrics loaded
           in case indicators_json_fault d of
                Some e \<Rightarrow> d
              | None \<Rightarrow>
                  (let d1 = d\<lparr>indicators_json := Content ind\<rparr>
                   in if dashboard_active d1 then
                        (case realtime_log_fault d1 of
                           Some e \<Rightarrow> d1
                         | None \<Rightarrow>
                             d1\<lparr>realtime_log := realtime_log d1 @
                                  [(now_locale_time pr, tool_key metrics,
                                    commands_executed ind, files_modified ind)]\<rparr>)
                      else d1)))"

subsection \<open>Pipeline orchestrator\<close>

record summary =
  sum_toolName :: string
  successful :: bool
  metricsLogged :: bool
  apiMethod :: string
  apiMessage :: "string option"

record report =
  rep_success :: bool
  rep_executionTime :: real
  rep_memoryUsage :: "int option"
  rep_metrics :: "summary option"
  rep_errorMessage :: "string option"

text \<open>\<^verbatim>\<open>Math.round\<close>: the nearest integer, a half rounded up.\<close>

definition js_round :: "real \<Rightarrow> int" where
  "js_round x = \<lfloor>x + 1 / 2\<rfloor>"

text \<open>
  The elapsed time that both exits of \<^verbatim>\<open>main\<close> report:
  \<^verbatim>\<open>Number(endTime - startTime) / 1000000\<close>, rounded to two decimals.
\<close>

definition elapsed_ms :: "process \<Rightarrow> real" where
  "elapsed_ms pr =
     real_of_int (js_round (real_of_int (hrtime_end pr - hrtime_start pr) / 1000000 * 100)) / 100"

text \<open>The basic tool metrics (lines 323 to 331).\<close>

definition basic_metrics :: "process \<Rightarrow> tool_data \<Rightarrow> hook_context \<Rightarrow> string \<Rightarrow> event" where
  "basic_metrics pr toolData context sessionId =
     empty_object
       \<lparr>event_type := Some ''tool_execution'',
        timestamp := Some (now_iso pr),
        tool_name := Some (ctx_tool_name context),
        success := Some (ctx_error context = None),
        execution_time_ms :=
          Some (js_round (case executionTime toolData of None \<Rightarrow> 0 | Some t \<Rightarrow> t)),
        user := Some (str_or (env_USER pr) ''unknown''),
        session_id := Some sessionId\<rparr>"

text \<open>The record of a delegation (lines 339 to 346).\<close>

definition agent_metrics :: "process \<Rightarrow> hook_context \<Rightarrow> event \<Rightarrow> event \<Rightarrow> event" where
  "agent_metrics pr context toolSpecificMetrics metricsData =
     empty_object
       \<lparr>event_type := Some ''agent_invocation'',
        timestamp := Some (now_iso pr),
        agent_name := subagent_type toolSpecificMetrics,
        task_description := task_description toolSpecificMetrics,
        success := Some (ctx_error context = None),
        execution_time_ms := execution_time_ms metricsData\<rparr>"

text \<open>The error details (lines 351 to 354).\<close>

definition add_error_details :: "hook_context \<Rightarrow> event \<Rightarrow> event" where
  "add_error_details context metricsData =
     (case ctx_error context of
        None \<Rightarrow> metricsData
      | Some rendering \<Rightarrow> metricsData\<lparr>error := Some True, error_message := Some rendering\<rparr>)"

text \<open>
  A call of the sink by \<^verbatim>\<open>main\<close>. Beside the disk, the calls are listed: the records
  handed to \<^verbatim>\<open>logMetrics\<close>, in the order of the calls.
\<close>

definition sink_call ::
  "api \<Rightarrow> process \<Rightarrow> event \<Rightarrow> disk \<times> event list \<Rightarrow> (exn + outcome) \<times> disk \<times> event list" where
  "sink_call a pr data w =
     (case logMetrics a pr data (fst w) of (r, d) \<Rightarrow> (r, d, snd w @ [data]))"

text \<open>
  The tracking of a delegation (lines 338 to 348): for the tool \<^verbatim>\<open>Task\<close> the record of
  the delegation is handed to the sink; the result is the exception that leaves the
  statement, if any.
\<close>

definition track_agent ::
  "api \<Rightarrow> process \<Rightarrow> hook_context \<Rightarrow> event \<Rightarrow> event \<Rightarrow> disk \<Rightarrow> exn option \<times> disk \<times> event list" where
  "track_agent a pr context toolSpecificMetrics metricsData d =
     (if ctx_tool_name context = ''Task'' then
        (case sink_call a pr
                (agent_metrics pr context toolSpecificMetrics metricsData) (d, []) of
           (Inl e, w) \<Rightarrow> (Some e, w)
         | (Inr agentResult, w) \<Rightarrow> (None, w))
      else (None, d, []))"

text \<open>
  The \<^verbatim>\<open>try\<close> block of \<^verbatim>\<open>main\<close>: the report or the exception that leaves the block,
  the disk, and the records handed to the sink.
\<close>

definition main_body ::
  "api \<Rightarrow> platform \<Rightarrow> process \<Rightarrow> tool_data \<Rightarrow> disk \<Rightarrow> (exn + report) \<times> disk \<times> event list" where
  "main_body a pf pr toolData d =
     (let context = createPostToolUseContext pr toolData
      in case getCurrentSessionId pr d of
           Inl e \<Rightarrow> (Inl e, d, [])
         | Inr sessionId \<Rightarrow>
     (let metricsData = basic_metrics pr toolData context sessionId
      in case extractToolSpecificMetrics pf context of
           Inl e \<Rightarrow> (Inl e, d, [])
         | Inr toolSpecificMetrics \<Rightarrow>
     (let metricsData = object_assign metricsData toolSpecificMetrics
      in case track_agent a pr context toolSpecificMetrics metricsData d of
           (Some e, w1) \<Rightarrow> (Inl e, w1)
         | (None, w1) \<Rightarrow>
     (let metricsData = add_error_details context metricsData
      in case sink_call a pr metricsData w1 of
           (Inl e, w2) \<Rightarrow> (Inl e, w2)
         | (Inr logResult, d2, calls) \<Rightarrow>
     (let d3 = updateProductivityIndicators pf pr metricsData d2
      in (Inr \<lparr>rep_success = True,
               rep_executionTime = elapsed_ms pr,
               rep_memoryUsage = Some (heapUsed pr),
               rep_metrics =
                 Some \<lparr>sum_toolName = ctx_tool_name context,
                       successful = (ctx_error context = None),
                       metricsLogged = out_success logResult,
                       apiMethod = out_method logResult,
                       apiMessage = out_message logResult\<rparr>,
               rep_errorMessage = None\<rparr>, d3, calls))))))"

text \<open>The function with its \<^verbatim>\<open>catch\<close>: an exception becomes a failed report.\<close>

definition main ::
  "api \<Rightarrow> platform \<Rightarrow> process \<Rightarrow> tool_data \<Rightarrow> disk \<Rightarrow> report \<times> disk \<times> event list" where
  "main a pf pr toolData d =
     (case main_body a pf pr toolData d of
        (Inr r, w) \<Rightarrow> (r, w)
      | (Inl e, w) \<Rightarrow>
          (\<lparr>rep_success = False,
            rep_executionTime = elapsed_ms pr,
            rep_memoryUsage = None,
            rep_metrics = None,
            rep_errorMessage = Some (message e)\<rparr>, w))"

text \<open>
  The primary record of a call as \<^verbatim>\<open>main\<close> hands it to the sink: the basic metrics with
  the tool-specific metrics assigned and the error details added.
\<close>

definition primary_record ::
  "process \<Rightarrow> tool_data \<Rightarrow> hook_context \<Rightarrow> string \<Rightarrow> event \<Rightarrow> event" where
  "primary_record pr toolData context sessionId toolSpecificMetrics =
     add_error_details context
       (object_assign (basic_metrics pr toolData context sessionId) toolSpecificMetrics)"


subsection \<open>Sample inputs\<close>

text \<open>
  Concrete inputs on which the theorems below are instantiated. The sample platform has
  no file to read; its stand-in for \<^verbatim>\<open>path.extname\<close> is the suffix of the name from
  its last dot.
\<close>

definition dot_suffix :: "string \<Rightarrow> string" where
  "dot_suffix p =
     (if CHR ''.'' \<in> set p then CHR ''.'' # rev (takeWhile (\<lambda>c. c \<noteq> CHR ''.'') (rev p))
      else [])"

definition sample_platform :: platform where
  "sample_platform =
     \<lparr>existsSync = (\<lambda>p. False),
      statSync_size = (\<lambda>p. Inl (IOError ''ENOENT'')),
      extname = dot_suffix,
      number_to_string = (\<lambda>r. ''0''),
      prototype_member =
        map_of [(''constructor'', ''function Object() { [native code] }''),
                (''toString'', ''function toString() { [native code] }''),
                (''__proto__'', ''[object Object]'')]\<rparr>"

definition sample_process :: process where
  "sample_process =
     \<lparr>env_CLAUDE_SESSION_ID = None, env_USER = None,
      now_iso = ''2025-01-01T00:00:00Z'', now_locale_time = ''00:00:00'',
      hrtime_start = 0, hrtime_end = 12345678, heapUsed = 1048576,
      nodeVersion = ''v20.0.0'', os_platform = ''linux'', architecture = ''x64''\<rparr>"

text \<open>A disk with no file yet and no failing operation.\<close>

definition empty_disk :: disk where
  "empty_disk =
     \<lparr>session_id_file = Absent, metrics_dir_fault = None, tool_metrics_jsonl = [],
      tool_metrics_jsonl_fault = None, realtime_dir_fault = None, activity_log = [],
      activity_log_fault = None, indicators_json = Absent, indicators_json_fault = None,
      dashboard_active = False, realtime_log = [], realtime_log_fault = None\<rparr>"

text \<open>A disk on which the metrics directory cannot be created.\<close>

definition readonly_disk :: disk where
  "readonly_disk = empty_disk\<lparr>metrics_dir_fault := Some (IOError ''EACCES'')\<rparr>"


text \<open>A client whose submission throws, and one whose submission is acknowledged.\<close>

definition offline_api :: api where
  "offline_api =
     \<lparr>new_MetricsApiClient = None,
      sendToBackendWithFallback =
        (\<lambda>fallback data d. (Inl (ErrorObject (IOError ''ECONNREFUSED'')), d))\<rparr>"

definition online_api :: api where
  "online_api =
     \<lparr>new_MetricsApiClient = None,
      sendToBackendWithFallback =
        (\<lambda>fallback data d.
           (Inr \<lparr>out_success = True, out_method = ''remote'', out_message = None,
                 out_error = None\<rparr>, d))\<rparr>"

text \<open>Raw invocations: the Edit of scenario B, a delegation, and ill-typed inputs.\<close>

definition edit_call :: tool_data where
  "edit_call =
     \<lparr>toolName = Some ''Edit'',
      toolInput = Some [(''old_string'', JStr [CHR ''a'', newline, CHR ''b'']),
                        (''new_string'', JStr ''x'')],
      td_error = None, executionTime = Some 12.4\<rparr>"

definition task_call :: tool_data where
  "task_call =
     \<lparr>toolName = Some ''Task'',
      toolInput = Some [(''subagent_type'', JStr ''frontend-developer''),
                        (''description'', JStr ''Create component'')],
      td_error = None, executionTime = Some 50\<rparr>"

definition failed_bash_call :: tool_data where
  "failed_bash_call =
     \<lparr>toolName = Some ''Bash'',
      toolInput = Some [(''command'', JStr ''npm test'')],
      td_error = Some ''Error: Simulated tool failure'', executionTime = Some 20\<rparr>"

definition ill_typed_edit_call :: tool_data where
  "ill_typed_edit_call =
     \<lparr>toolName = Some ''Edit'',
      toolInput = Some [(''file_path'', JStr ''/tmp/test.txt''), (''old_string'', JNum 5)],
      td_error = None, executionTime = None\<rparr>"

definition write_call_without_path :: tool_data where
  "write_call_without_path =
     \<lparr>toolName = Some ''Write'',
      toolInput = Some [(''content'', JStr ''hello'')],
      td_error = None, executionTime = Some 3\<rparr>"

definition multiline_command :: string where
  "multiline_command = ''make'' @ newline # ''make install''"

definition multiline_bash_call :: tool_data where
  "multiline_bash_call =
     \<lparr>toolName = Some ''Bash'',
      toolInput = Some [(''command'', JStr multiline_command)],
      td_error = None, executionTime = Some 20\<rparr>"

text \<open>A client that cannot be built.\<close>

definition broken_api :: api where
  "broken_api =
     \<lparr>new_MetricsApiClient =
        Some (ErrorObject (TypeError ''MetricsApiClient is not a constructor'')),
      sendToBackendWithFallback =
        (\<lambda>fallback data d. (Inl (ErrorObject (IOError ''unreachable'')), d))\<rparr>"

text \<open>A client whose submission rejects with \<^verbatim>\<open>undefined\<close>.\<close>

definition rejecting_api :: api where
  "rejecting_api =
     \<lparr>new_MetricsApiClient = None,
      sendToBackendWithFallback = (\<lambda>fallback data d. (Inl (NonError JUndefined), d))\<rparr>"


text \<open>A disk whose session-id file holds white space only, and one that holds an id.\<close>

definition blank_session_disk :: disk where
  "blank_session_disk = empty_disk\<lparr>session_id_file := Content ''  ''\<rparr>"

definition stored_session_disk :: disk where
  "stored_session_disk = empty_disk\<lparr>session_id_file := Content '' abc-123 ''\<rparr>"

text \<open>The record of a failed invocation.\<close>

definition failed_record :: event where
  "failed_record =
     empty_object
       \<lparr>event_type := Some ''tool_execution'', timestamp := Some ''2025-01-01T00:00:00Z'',
        tool_name := Some ''Bash'', success := Some False, execution_time_ms := Some 20,
        user := Some ''unknown'', session_id := Some ''default-session'',
        error := Some True, error_message := Some ''Error: Simulated tool failure''\<rparr>"

subsection \<open>Notions of the specification\<close>

text \<open>
  The first white-space-delimited token of a string, as the specification words the
  command type of a Bash invocation: leading white space is skipped and the token ends
  at the next white space.
\<close>

definition spec_first_token :: "string \<Rightarrow> string" where
  "spec_first_token s =
     takeWhile (\<lambda>c. \<not> is_js_whitespace c) (dropWhile is_js_whitespace s)"






section \<open>Properties\<close>

subsection \<open>Splitting strings\<close>

lemma js_split_not_Nil: "js_split sep s \<noteq> []"
  by (induction s) (auto split: list.splits)

lemma length_js_split: "length (js_split sep s) = Suc (count_list s sep)"
  by (induction s) (auto split: list.splits simp: js_split_not_Nil)

lemma js_split_no_sep: "w \<in> set (js_split sep s) \<Longrightarrow> sep \<notin> set w"
  by (induction s arbitrary: w) (auto split: list.splits if_splits)

lemma js_join_Cons: "ws \<noteq> [] \<Longrightarrow> js_join sep (w # ws) = w @ sep # js_join sep ws"
  by (cases ws) auto

lemma js_join_Cons_Cons: "js_join sep ((c # w) # ws) = c # js_join sep (w # ws)"
  by (cases ws) auto

lemma js_join_split: "js_join sep (js_split sep s) = s"
  by (induction s)
    (auto split: list.splits simp: js_split_not_Nil js_join_Cons js_join_Cons_Cons)

lemma first_element_js_split:
  "first_element (js_split sep s) = JStr (takeWhile (\<lambda>c. c \<noteq> sep) s)"
  by (induction s) (auto simp: first_element_def split: list.splits)


subsection \<open>The extractor, branch by branch\<close>

lemma extract_Edit:
  assumes "ctx_tool_name c = ''Edit''"
    and "js_or (get_prop (ctx_tool_input c) ''old_string'') (JStr []) = JStr old"
    and "js_or (get_prop (ctx_tool_input c) ''new_string'') (JStr []) = JStr new"
  shows "extractToolSpecificMetrics pf c =
     Inr (empty_object
       \<lparr>file_path := Some (js_or (get_prop (ctx_tool_input c) ''file_path'') (JStr [])),
        lines_added := Some (string_line_count new),
        lines_removed := Some (string_line_count old),
        net_lines := Some (string_line_count new - string_line_count old),
        replace_all :=
          Some (js_or (get_prop (ctx_tool_input c) ''replace_all'') (JBool False))\<rparr>)"
  using assms by (simp add: extractToolSpecificMetrics_def Let_def)

lemma sample_edit_context:
  "ctx_tool_name (createPostToolUseContext sample_process edit_call) = ''Edit''"
  "ctx_tool_input (createPostToolUseContext sample_process edit_call) =
     [(''old_string'', JStr [CHR ''a'', newline, CHR ''b'']), (''new_string'', JStr ''x'')]"
  by (simp_all add: createPostToolUseContext_def edit_call_def str_or_def)

subsection \<open>Line counts of the Edit and Write extractors\<close>

text \<open>
  Claim C6. The line count of a string is 0 for the empty string and otherwise the number
  of its newline-separated segments: the segments hold no newline, joined by newlines
  they give the string back, and there is one more of them than newlines in the string.
  For an Edit input whose old and new string are strings (or absent, which reads as the
  empty string), \<open>lines_removed\<close> is the line count of the old string, \<open>lines_added\<close>
  that of the new string, and \<open>net_lines\<close> their difference. For a Write input the
  lines written are the line count of the content.
\<close>

theorem edit_line_counts:
  "string_line_count [] = 0
   \<and> (s \<noteq> [] \<longrightarrow>
        string_line_count s = int (length (js_split newline s))
        \<and> js_join newline (js_split newline s) = s
        \<and> (\<forall>w \<in> set (js_split newline s). newline \<notin> set w)
        \<and> length (js_split newline s) = Suc (count_list s newline))
   \<and> line_count (JStr s) = Inr (string_line_count s)
   \<and> (ctx_tool_name c = ''Edit''
        \<and> js_or (get_prop (ctx_tool_input c) ''old_string'') (JStr []) = JStr old
        \<and> js_or (get_prop (ctx_tool_input c) ''new_string'') (JStr []) = JStr new \<longrightarrow>
        (\<exists>m. extractToolSpecificMetrics pf c = Inr m
           \<and> lines_removed m = Some (string_line_count old)
           \<and> lines_added m = Some (string_line_count new)
           \<and> net_lines m = Some (string_line_count new - string_line_count old)))
   \<and> (ctx_tool_name c = ''Write''
        \<and> js_or (get_prop (ctx_tool_input c) ''content'') (JStr []) = JStr text
        \<and> extractToolSpecificMetrics pf c = Inr m' \<longrightarrow>
        lines_written m' = Some (string_line_count text))"
proof -
  have a: "string_line_count [] = 0"
    by (simp add: string_line_count_def)
  have b: "s \<noteq> [] \<longrightarrow>
        string_line_count s = int (length (js_split newline s))
        \<and> js_join newline (js_split newline s) = s
        \<and> (\<forall>w \<in> set (js_split newline s). newline \<notin> set w)
        \<and> length (js_split newline s) = Suc (count_list s newline)"
    using js_split_no_sep [of _ newline s]
    by (simp add: string_line_count_def js_join_split length_js_split)
  have c: "line_count (JStr s) = Inr (string_line_count s)"
    by simp
  have d: "ctx_tool_name c = ''Edit''
        \<and> js_or (get_prop (ctx_tool_input c) ''old_string'') (JStr []) = JStr old
        \<and> js_or (get_prop (ctx_tool_input c) ''new_string'') (JStr []) = JStr new \<longrightarrow>
        (\<exists>m. extractToolSpecificMetrics pf c = Inr m
           \<and> lines_removed m = Some (string_line_count old)
           \<and> lines_added m = Some (string_line_count new)
           \<and> net_lines m = Some (string_line_count new - string_line_count old))"
    by (auto simp: extract_Edit)
  have e: "ctx_tool_name c = ''Write''
        \<and> js_or (get_prop (ctx_tool_input c) ''content'') (JStr []) = JStr text
        \<and> extractToolSpecificMetrics pf c = Inr m' \<longrightarrow>
        lines_written m' = Some (string_line_count text)"
    by (auto simp: extractToolSpecificMetrics_def Let_def split: sum.splits)
  from a b c d e show ?thesis by blast
qed

lemma sample_write_context:
  "ctx_tool_name (createPostToolUseContext sample_process write_call_without_path) = ''Write''"
  "ctx_tool_input (createPostToolUseContext sample_process write_call_without_path) =
     [(''content'', JStr ''hello'')]"
  by (simp_all add: createPostToolUseContext_def write_call_without_path_def str_or_def)

lemma sample_write_extract:
  "extractToolSpecificMetrics sample_platform
     (createPostToolUseContext sample_process write_call_without_path) =
   Inr (empty_object
     \<lparr>file_path := Some (JStr []), content_length := Some (JNum 5),
      lines_written := Some 1, file_type := Some ''unknown''\<rparr>)"
  by (simp add: extractToolSpecificMetrics_def sample_write_context get_prop_def js_or_def
      string_line_count_def newline_def)

theorem edit_line_counts_witness:
  "string_line_count [CHR ''a'', newline, CHR ''b''] = 2
   \<and> (\<exists>m. extractToolSpecificMetrics sample_platform
             (createPostToolUseContext sample_process edit_call) = Inr m
        \<and> lines_removed m = Some 2 \<and> lines_added m = Some 1 \<and> net_lines m = Some (- 1))
   \<and> (\<exists>m. extractToolSpecificMetrics sample_platform
             (createPostToolUseContext sample_process write_call_without_path) = Inr m
        \<and> lines_written m = Some (string_line_count ''hello'')
        \<and> string_line_count ''hello'' = 1)"
proof -
  have l2: "string_line_count [CHR ''a'', newline, CHR ''b''] = 2"
    by (simp add: string_line_count_def newline_def)
  have l1: "string_line_count ''x'' = 1"
    by (simp add: string_line_count_def newline_def)
  have l5: "string_line_count ''hello'' = 1"
    by (simp add: string_line_count_def newline_def)
  show ?thesis
    using edit_line_counts [of "[CHR ''a'', newline, CHR ''b'']"
        "createPostToolUseContext sample_process edit_call"
        "[CHR ''a'', newline, CHR ''b'']" "''x''" sample_platform]
      edit_line_counts [of _
        "createPostToolUseContext sample_process write_call_without_path" _ _
        sample_platform "''hello''"
        "empty_object
           \<lparr>file_path := Some (JStr []), content_length := Some (JNum 5),
            lines_written := Some 1, file_type := Some ''unknown''\<rparr>"]
    by (simp add: sample_edit_context sample_write_context sample_write_extract
        get_prop_def js_or_def l1 l2 l5)
qed

subsection \<open>The command type of a Bash invocation\<close>

lemma extract_Bash:
  assumes "ctx_tool_name c = ''Bash''"
    and "js_or (get_prop (ctx_tool_input c) ''command'') (JStr []) = JStr cmd"
  shows "extractToolSpecificMetrics pf c =
     Inr (empty_object
       \<lparr>command := Some (JStr cmd),
        command_type :=
          Some (JStr (if cmd = [] then ''unknown'' else takeWhile (\<lambda>c. c \<noteq> space) cmd)),
        background :=
          Some (js_or (get_prop (ctx_tool_input c) ''run_in_background'') (JBool False)),
        timeout := Some (js_or (get_prop (ctx_tool_input c) ''timeout'') JNull)\<rparr>)"
  using assms by (simp add: extractToolSpecificMetrics_def Let_def first_element_js_split)

lemma sample_bash_context:
  "ctx_tool_name (createPostToolUseContext sample_process multiline_bash_call) = ''Bash''"
  "ctx_tool_input (createPostToolUseContext sample_process multiline_bash_call) =
     [(''command'', JStr multiline_command)]"
  by (simp_all add: createPostToolUseContext_def multiline_bash_call_def str_or_def)

text \<open>
  Claim C7, as stated, fails. On the command \<^verbatim>\<open>make\nmake install\<close> (a line feed after
  the first word) the extracted command type is \<^verbatim>\<open>make\nmake\<close>, the text before the
  first space, while the first white-space-delimited token is \<^verbatim>\<open>make\<close>.
\<close>

theorem command_type_first_segment_counterexample:
  "map_sum id command_type
     (extractToolSpecificMetrics sample_platform
        (createPostToolUseContext sample_process multiline_bash_call))
     = Inr (Some (JStr (''make'' @ newline # ''make'')))
   \<and> spec_first_token multiline_command = ''make''
   \<and> multiline_command \<noteq> []"
  by (simp add: extract_Bash [where cmd = multiline_command] sample_bash_context
      get_prop_def js_or_def multiline_command_def space_def newline_def
      spec_first_token_def is_js_whitespace_def)

text \<open>
  Claim C7, amended. For every Bash invocation whose command is a string (or absent,
  which reads as the empty string), the extracted command type is the text of the command
  before its first space character, the whole command when it has no space, or the
  literal \<^verbatim>\<open>unknown\<close> when the command is empty.
\<close>

theorem command_type_first_segment:
  "ctx_tool_name c = ''Bash''
   \<and> js_or (get_prop (ctx_tool_input c) ''command'') (JStr []) = JStr cmd \<longrightarrow>
   (\<exists>m. extractToolSpecificMetrics pf c = Inr m
      \<and> command_type m =
          Some (JStr (if cmd = [] then ''unknown'' else takeWhile (\<lambda>c. c \<noteq> space) cmd)))"
  by (auto simp: extract_Bash)

theorem command_type_first_segment_witness:
  "\<exists>m. extractToolSpecificMetrics sample_platform
          (createPostToolUseContext sample_process multiline_bash_call) = Inr m
      \<and> command_type m = Some (JStr (''make'' @ newline # ''make''))"
  using command_type_first_segment
      [of "createPostToolUseContext sample_process multiline_bash_call"
      multiline_command sample_platform]
  by (simp add: sample_bash_context get_prop_def js_or_def multiline_command_def
      space_def newline_def)

subsection \<open>The primary record\<close>

lemma extract_basic_keys:
  assumes "extractToolSpecificMetrics pf c = Inr m"
  shows "event_type m = None" "timestamp m = None" "tool_name m = None" "success m = None"
    "execution_time_ms m = None" "user m = None" "session_id m = None"
    "error m = None" "error_message m = None" "agent_name m = None"
  using assms
  by (auto simp: extractToolSpecificMetrics_def Let_def empty_object_def
      split: if_splits sum.splits)

lemma primary_record_basic:
  assumes "extractToolSpecificMetrics pf c = Inr m"
  shows "event_type (primary_record pr td c sid m) = Some ''tool_execution''"
    "timestamp (primary_record pr td c sid m) = Some (now_iso pr)"
    "tool_name (primary_record pr td c sid m) = Some (ctx_tool_name c)"
    "success (primary_record pr td c sid m) = Some (ctx_error c = None)"
    "execution_time_ms (primary_record pr td c sid m) =
       Some (js_round (case executionTime td of None \<Rightarrow> 0 | Some t \<Rightarrow> t))"
    "user (primary_record pr td c sid m) = Some (str_or (env_USER pr) ''unknown'')"
    "session_id (primary_record pr td c sid m) = Some sid"
  using extract_basic_keys [OF assms]
  by (simp_all add: primary_record_def add_error_details_def object_assign_def
      basic_metrics_def empty_object_def assign_key_def split: option.splits)



subsection \<open>The aggregator, statement by statement\<close>













subsection \<open>The invariant of the indicators document\<close>














subsection \<open>The success rate\<close>





subsection \<open>The invariant on a sample\<close>

lemma sample_edit_extract:
  "extractToolSpecificMetrics sample_platform
     (createPostToolUseContext sample_process edit_call) =
   Inr (empty_object
     \<lparr>file_path := Some (JStr []), lines_added := Some 1, lines_removed := Some 2,
      net_lines := Some (- 1), replace_all := Some (JBool False)\<rparr>)"
proof -
  have l2: "string_line_count [CHR ''a'', newline, CHR ''b''] = 2"
    by (simp add: string_line_count_def newline_def)
  have l1: "string_line_count ''x'' = 1"
    by (simp add: string_line_count_def newline_def)
  show ?thesis
    using extract_Edit [of "createPostToolUseContext sample_process edit_call"
        "[CHR ''a'', newline, CHR ''b'']" "''x''" sample_platform]
    by (simp add: sample_edit_context get_prop_def js_or_def l1 l2)
qed






subsection \<open>Files modified by Edit and Write\<close>



subsection \<open>Session resolution\<close>

lemma rev_dropWhile_takeWhile:
  "rev (dropWhile P (rev xs)) @ rev (takeWhile P (rev xs)) = xs"
proof -
  have "rev (takeWhile P (rev xs) @ dropWhile P (rev xs)) = rev (rev xs)"
    by (simp only: takeWhile_dropWhile_id)
  then show ?thesis
    by (simp only: rev_append rev_rev_ident)
qed

lemma js_trim_decomposition:
  "\<exists>a b. s = a @ js_trim s @ b \<and> list_all is_js_whitespace a \<and> list_all is_js_whitespace b"
proof -
  let ?t = "dropWhile is_js_whitespace s"
  let ?b = "rev (takeWhile is_js_whitespace (rev ?t))"
  have t: "js_trim s @ ?b = ?t"
    unfolding js_trim_def by (rule rev_dropWhile_takeWhile)
  have "takeWhile is_js_whitespace s @ ?t = s"
    by (rule takeWhile_dropWhile_id)
  with t have "s = takeWhile is_js_whitespace s @ js_trim s @ ?b"
    by simp
  moreover have "list_all is_js_whitespace (takeWhile is_js_whitespace s)"
    by (simp add: list_all_iff) (meson set_takeWhileD)
  moreover have "list_all is_js_whitespace ?b"
    by (simp add: list_all_iff) (meson set_takeWhileD)
  ultimately show ?thesis by blast
qed

lemma js_trim_ends:
  "js_trim s \<noteq> [] \<Longrightarrow>
   \<not> is_js_whitespace (hd (js_trim s)) \<and> \<not> is_js_whitespace (last (js_trim s))"
proof -
  assume ne: "js_trim s \<noteq> []"
  let ?t = "dropWhile is_js_whitespace s"
  let ?u = "dropWhile is_js_whitespace (rev ?t)"
  let ?b = "rev (takeWhile is_js_whitespace (rev ?t))"
  from ne have u: "?u \<noteq> []" by (simp add: js_trim_def)
  then have "\<not> is_js_whitespace (hd ?u)" by (rule hd_dropWhile)
  then have l: "\<not> is_js_whitespace (last (js_trim s))"
    using u by (simp add: js_trim_def last_rev)
  have t: "js_trim s @ ?b = ?t"
    unfolding js_trim_def by (rule rev_dropWhile_takeWhile)
  with ne have tne: "?t \<noteq> []" by (metis append_is_Nil_conv)
  then have h: "\<not> is_js_whitespace (hd ?t)" by (rule hd_dropWhile)
  from t ne have "hd (js_trim s) = hd ?t" by (metis hd_append2)
  with h l show ?thesis by simp
qed

text \<open>
  Claim C3, amended. The resolver never throws and returns a string that is not empty.
  When the environment variable is set and not empty, its value is returned. Otherwise,
  when the session-id file exists, is readable and its trimmed content is not empty, the
  trimmed content is returned: the content without the white space at its two ends.
  Otherwise (the file is absent, reading it fails, or its trimmed content is empty) the
  literal \<^verbatim>\<open>default-session\<close> is returned.
\<close>

theorem session_resolution:
  "(\<exists>sid. getCurrentSessionId pr d = Inr sid \<and> sid \<noteq> [])
   \<and> (env_CLAUDE_SESSION_ID pr = Some v \<and> v \<noteq> [] \<longrightarrow> getCurrentSessionId pr d = Inr v)
   \<and> ((env_CLAUDE_SESSION_ID pr = None \<or> env_CLAUDE_SESSION_ID pr = Some [])
        \<and> session_id_file d = Content c \<and> js_trim c \<noteq> [] \<longrightarrow>
        getCurrentSessionId pr d = Inr (js_trim c)
        \<and> \<not> is_js_whitespace (hd (js_trim c)) \<and> \<not> is_js_whitespace (last (js_trim c))
        \<and> (\<exists>a b. c = a @ js_trim c @ b
               \<and> list_all is_js_whitespace a \<and> list_all is_js_whitespace b))
   \<and> ((env_CLAUDE_SESSION_ID pr = None \<or> env_CLAUDE_SESSION_ID pr = Some [])
        \<and> (session_id_file d = Absent \<or> session_id_file d = ReadError e
            \<or> (session_id_file d = Content c \<and> js_trim c = [])) \<longrightarrow>
        getCurrentSessionId pr d = Inr ''default-session'')"
proof -
  have a: "\<exists>sid. getCurrentSessionId pr d = Inr sid \<and> sid \<noteq> []"
    by (auto simp: getCurrentSessionId_def falsy_string_def str_or_def Let_def
        split: file_read.splits option.splits)
  have b: "env_CLAUDE_SESSION_ID pr = Some v \<and> v \<noteq> [] \<longrightarrow>
      getCurrentSessionId pr d = Inr v"
    by (auto simp: getCurrentSessionId_def falsy_string_def str_or_def Let_def)
  have c: "(env_CLAUDE_SESSION_ID pr = None \<or> env_CLAUDE_SESSION_ID pr = Some [])
        \<and> session_id_file d = Content c \<and> js_trim c \<noteq> [] \<longrightarrow>
        getCurrentSessionId pr d = Inr (js_trim c)
        \<and> \<not> is_js_whitespace (hd (js_trim c)) \<and> \<not> is_js_whitespace (last (js_trim c))
        \<and> (\<exists>a b. c = a @ js_trim c @ b
               \<and> list_all is_js_whitespace a \<and> list_all is_js_whitespace b)"
    using js_trim_decomposition [of c] js_trim_ends [of c]
    by (auto simp: getCurrentSessionId_def falsy_string_def str_or_def Let_def)
  have d: "(env_CLAUDE_SESSION_ID pr = None \<or> env_CLAUDE_SESSION_ID pr = Some [])
        \<and> (session_id_file d = Absent \<or> session_id_file d = ReadError e
            \<or> (session_id_file d = Content c \<and> js_trim c = [])) \<longrightarrow>
        getCurrentSessionId pr d = Inr ''default-session''"
    by (auto simp: getCurrentSessionId_def falsy_string_def str_or_def Let_def)
  from a b c d show ?thesis by blast
qed

theorem session_resolution_witness:
  "getCurrentSessionId (sample_process\<lparr>env_CLAUDE_SESSION_ID := Some ''s-1''\<rparr>)
     stored_session_disk = Inr ''s-1''
   \<and> getCurrentSessionId sample_process stored_session_disk = Inr ''abc-123''
   \<and> getCurrentSessionId sample_process empty_disk = Inr ''default-session''"
  using session_resolution [of "sample_process\<lparr>env_CLAUDE_SESSION_ID := Some ''s-1''\<rparr>"
      stored_session_disk "''s-1''"]
    session_resolution [of sample_process stored_session_disk _ "'' abc-123 ''"]
    session_resolution [of sample_process empty_disk]
  by (simp add: sample_process_def stored_session_disk_def empty_disk_def js_trim_def
      is_js_whitespace_def)

text \<open>
  Claim C3, as stated, fails. With the environment variable unset and a session-id file
  that exists, is readable and holds white space only, the trimmed content is the empty
  string, and the resolver returns \<^verbatim>\<open>default-session\<close>, not the trimmed content.
\<close>

theorem session_resolution_counterexample:
  "env_CLAUDE_SESSION_ID sample_process = None
   \<and> session_id_file blank_session_disk = Content ''  ''
   \<and> js_trim ''  '' = []
   \<and> getCurrentSessionId sample_process blank_session_disk = Inr ''default-session''
   \<and> getCurrentSessionId sample_process blank_session_disk \<noteq> Inr (js_trim ''  '')"
  by (simp add: getCurrentSessionId_def falsy_string_def str_or_def Let_def
      sample_process_def blank_session_disk_def empty_disk_def js_trim_def
      is_js_whitespace_def)

subsection \<open>The sink\<close>

lemma localFallback_succeeds:
  "(\<exists>d2. localFallback pr data d1 = (Inr (), d2)) =
     (metrics_dir_fault d1 = None \<and> tool_metrics_jsonl_fault d1 = None
      \<and> realtime_dir_fault d1 = None \<and> activity_log_fault d1 = None)"
  by (auto simp: localFallback_def Let_def split: option.splits)

lemma read_message_returns:
  "(\<exists>msg. read_message e = Inr msg) = (e \<noteq> NonError JUndefined \<and> e \<noteq> NonError JNull)"
proof (cases e)
  case (ErrorObject x)
  then show ?thesis by simp
next
  case (NonError v)
  then show ?thesis by (cases v) simp_all
qed

lemma logMetrics_unreadable_message:
  assumes "remote_submission a pr data d = (Inl e, d1)"
    and "read_message e = Inl te"
    and "localFallback pr data d1 = (Inr (), d2)"
  shows "logMetrics a pr data d =
     (Inr \<lparr>out_success = False, out_method = ''local_fallback'',
           out_message = Some ''Both API and local storage failed'',
           out_error = Some (JStr (message te))\<rparr>, d2)"
  using assms by (simp add: logMetrics_def fallback_attempt_def)

text \<open>
  Claim C2, as stated, fails. When the remote submission rejects with \<^verbatim>\<open>undefined\<close>,
  the local fallback writes its two lines, and reading \<^verbatim>\<open>error.message\<close> for the
  outcome then throws inside the inner \<^verbatim>\<open>try\<close>: the sink returns
  \<open>success = false\<close> although the local fallback has succeeded.
\<close>

theorem sink_never_raises_counterexample:
  "remote_submission rejecting_api sample_process failed_record empty_disk
     = (Inl (NonError JUndefined), empty_disk)
   \<and> localFallback sample_process failed_record empty_disk
     = (Inr (), empty_disk\<lparr>tool_metrics_jsonl := [failed_record],
          activity_log := [activity_line sample_process failed_record]\<rparr>)
   \<and> logMetrics rejecting_api sample_process failed_record empty_disk
     = (Inr \<lparr>out_success = False, out_method = ''local_fallback'',
             out_message = Some ''Both API and local storage failed'',
             out_error =
               Some (JStr ''Cannot read properties of undefined (reading message)'')\<rparr>,
        empty_disk\<lparr>tool_metrics_jsonl := [failed_record],
          activity_log := [activity_line sample_process failed_record]\<rparr>)"
proof -
  have r: "remote_submission rejecting_api sample_process failed_record empty_disk
      = (Inl (NonError JUndefined), empty_disk)"
    by (simp add: remote_submission_def rejecting_api_def)
  have f: "localFallback sample_process failed_record empty_disk
      = (Inr (), empty_disk\<lparr>tool_metrics_jsonl := [failed_record],
          activity_log := [activity_line sample_process failed_record]\<rparr>)"
    by (simp add: localFallback_def empty_disk_def)
  show ?thesis
    by (simp add: logMetrics_def fallback_attempt_def r f)
qed

text \<open>
  Claim C2, amended. The sink never throws: it always returns an outcome, and when the
  remote submission returns, that outcome is the remote one. When the remote submission
  throws a value whose message can be read (any value but \<^verbatim>\<open>undefined\<close> and
  \<^verbatim>\<open>null\<close>) and the local fallback returns, the outcome has \<open>success = true\<close>, the
  method \<^verbatim>\<open>local_fallback\<close> and that message. When the remote submission throws and the
  local fallback throws too, the outcome has \<open>success = false\<close> and the message of the
  fallback's exception. The local fallback returns exactly when none of its four file
  operations fails.
\<close>

theorem sink_never_raises:
  "(\<exists>out d'. logMetrics a pr data d = (Inr out, d'))
   \<and> (remote_submission a pr data d = (Inr result, d1) \<longrightarrow>
        logMetrics a pr data d = (Inr result, d1))
   \<and> (remote_submission a pr data d = (Inl e, d1) \<and> read_message e = Inr msg
        \<and> localFallback pr data d1 = (Inr (), d2) \<longrightarrow>
        (\<exists>out. logMetrics a pr data d = (Inr out, d2)
           \<and> out_success out \<and> out_method out = ''local_fallback''
           \<and> out_error out = Some msg))
   \<and> (remote_submission a pr data d = (Inl e, d1)
        \<and> localFallback pr data d1 = (Inl fe, d2) \<longrightarrow>
        (\<exists>out. logMetrics a pr data d = (Inr out, d2)
           \<and> \<not> out_success out \<and> out_method out = ''local_fallback''
           \<and> out_error out = Some (JStr (message fe))))
   \<and> ((\<exists>msg'. read_message e = Inr msg') =
        (e \<noteq> NonError JUndefined \<and> e \<noteq> NonError JNull))
   \<and> ((\<exists>d3. localFallback pr data d1 = (Inr (), d3)) =
        (metrics_dir_fault d1 = None \<and> tool_metrics_jsonl_fault d1 = None
         \<and> realtime_dir_fault d1 = None \<and> activity_log_fault d1 = None))"
proof -
  have a: "\<exists>out d'. logMetrics a pr data d = (Inr out, d')"
    by (auto simp: logMetrics_def split: prod.splits sum.splits)
  have r: "remote_submission a pr data d = (Inr result, d1) \<longrightarrow>
        logMetrics a pr data d = (Inr result, d1)"
    by (simp add: logMetrics_def)
  have b: "remote_submission a pr data d = (Inl e, d1) \<and> read_message e = Inr msg
        \<and> localFallback pr data d1 = (Inr (), d2) \<longrightarrow>
        (\<exists>out. logMetrics a pr data d = (Inr out, d2)
           \<and> out_success out \<and> out_method out = ''local_fallback''
           \<and> out_error out = Some msg)"
    by (simp add: logMetrics_def fallback_attempt_def)
  have c: "remote_submission a pr data d = (Inl e, d1)
        \<and> localFallback pr data d1 = (Inl fe, d2) \<longrightarrow>
        (\<exists>out. logMetrics a pr data d = (Inr out, d2)
           \<and> \<not> out_success out \<and> out_method out = ''local_fallback''
           \<and> out_error out = Some (JStr (message fe)))"
    by (simp add: logMetrics_def fallback_attempt_def)
  from a r b c read_message_returns [of e] localFallback_succeeds [of pr data d1]
  show ?thesis by blast
qed

theorem sink_never_raises_witness:
  "(\<exists>out d'. logMetrics offline_api sample_process failed_record empty_disk = (Inr out, d')
      \<and> out_success out \<and> out_method out = ''local_fallback''
      \<and> out_error out = Some (JStr ''ECONNREFUSED'')
      \<and> tool_metrics_jsonl d' = [failed_record])
   \<and> (\<exists>out. logMetrics offline_api sample_process failed_record readonly_disk
               = (Inr out, readonly_disk)
      \<and> \<not> out_success out \<and> out_method out = ''local_fallback''
      \<and> out_error out = Some (JStr ''EACCES''))
   \<and> (\<exists>out. logMetrics online_api sample_process failed_record readonly_disk
               = (Inr out, readonly_disk)
      \<and> out_success out \<and> out_method out = ''remote'')"
proof -
  have r3: "remote_submission online_api sample_process failed_record readonly_disk =
      (Inr \<lparr>out_success = True, out_method = ''remote'', out_message = None,
            out_error = None\<rparr>, readonly_disk)"
    by (simp add: remote_submission_def online_api_def)
  have r1: "remote_submission offline_api sample_process failed_record empty_disk
      = (Inl (ErrorObject (IOError ''ECONNREFUSED'')), empty_disk)"
    by (simp add: remote_submission_def offline_api_def)
  have r2: "remote_submission offline_api sample_process failed_record readonly_disk
      = (Inl (ErrorObject (IOError ''ECONNREFUSED'')), readonly_disk)"
    by (simp add: remote_submission_def offline_api_def)
  have f1: "localFallback sample_process failed_record empty_disk =
      (Inr (), empty_disk\<lparr>tool_metrics_jsonl := [failed_record],
         activity_log := [activity_line sample_process failed_record]\<rparr>)"
    by (simp add: localFallback_def empty_disk_def)
  have f2: "localFallback sample_process failed_record readonly_disk =
      (Inl (IOError ''EACCES''), readonly_disk)"
    by (simp add: localFallback_def readonly_disk_def empty_disk_def)
  show ?thesis
    using sink_never_raises [where a = offline_api and pr = sample_process
        and data = failed_record and d = empty_disk
        and e = "ErrorObject (IOError ''ECONNREFUSED'')" and ?d1.0 = empty_disk
        and msg = "JStr ''ECONNREFUSED''"
        and ?d2.0 = "empty_disk\<lparr>tool_metrics_jsonl := [failed_record],
           activity_log := [activity_line sample_process failed_record]\<rparr>"]
      sink_never_raises [where a = offline_api and pr = sample_process
        and data = failed_record and d = readonly_disk
        and e = "ErrorObject (IOError ''ECONNREFUSED'')" and ?d1.0 = readonly_disk
        and ?d2.0 = readonly_disk and fe = "IOError ''EACCES''"]
      sink_never_raises [where a = online_api and pr = sample_process
        and data = failed_record and d = readonly_disk
        and result = "\<lparr>out_success = True, out_method = ''remote'', out_message = None,
            out_error = None\<rparr>" and ?d1.0 = readonly_disk]
    by (auto simp: r1 r2 r3 f1 f2)
qed

subsection \<open>A run of the orchestrator\<close>

lemma logMetrics_returns: "\<exists>out d'. logMetrics a pr data d = (Inr out, d')"
  by (auto simp: logMetrics_def split: prod.splits sum.splits)

lemma track_agent_disk:
  "fst (snd (track_agent a pr c m md d)) =
     (if ctx_tool_name c = ''Task'' then snd (logMetrics a pr (agent_metrics pr c m md) d)
      else d)"
  using logMetrics_returns [of a pr "agent_metrics pr c m md" d]
  by (auto simp: track_agent_def sink_call_def)

lemma track_agent_Task:
  "ctx_tool_name c = ''Task'' \<Longrightarrow>
   \<exists>d'. track_agent a pr c m md d = (None, d', [agent_metrics pr c m md])"
  using logMetrics_returns [of a pr "agent_metrics pr c m md" d]
  by (auto simp: track_agent_def sink_call_def)

lemma track_agent_other:
  "ctx_tool_name c \<noteq> ''Task'' \<Longrightarrow> track_agent a pr c m md d = (None, d, [])"
  by (simp add: track_agent_def)

lemma track_agent_calls:
  "\<exists>d'. track_agent a pr c m md d =
     (None, d', if ctx_tool_name c = ''Task'' then [agent_metrics pr c m md] else [])"
  using track_agent_Task [of c a pr m md d] track_agent_other [of c a pr m md d]
  by (cases "ctx_tool_name c = ''Task''") auto

lemma main_body_raises:
  "extractToolSpecificMetrics pf (createPostToolUseContext pr td) = Inl e \<Longrightarrow>
   main_body a pf pr td d = (Inl e, d, [])"
  by (simp add: main_body_def getCurrentSessionId_def Let_def)

lemma main_body_run:
  assumes ex: "extractToolSpecificMetrics pf (createPostToolUseContext pr td) = Inr m"
    and sid: "getCurrentSessionId pr d = Inr sid"
  shows "\<exists>d1 out d2.
      track_agent a pr (createPostToolUseContext pr td) m
          (object_assign (basic_metrics pr td (createPostToolUseContext pr td) sid) m) d
        = (None, d1,
           if ctx_tool_name (createPostToolUseContext pr td) = ''Task''
           then [agent_metrics pr (createPostToolUseContext pr td) m
                   (object_assign (basic_metrics pr td (createPostToolUseContext pr td) sid) m)]
           else [])
      \<and> logMetrics a pr (primary_record pr td (createPostToolUseContext pr td) sid m) d1
          = (Inr out, d2)
      \<and> main_body a pf pr td d =
          (Inr \<lparr>rep_success = True,
                rep_executionTime = elapsed_ms pr,
                rep_memoryUsage = Some (heapUsed pr),
                rep_metrics =
                  Some \<lparr>sum_toolName = ctx_tool_name (createPostToolUseContext pr td),
                        successful = (ctx_error (createPostToolUseContext pr td) = None),
                        metricsLogged = out_success out,
                        apiMethod = out_method out,
                        apiMessage = out_message out\<rparr>,
                rep_errorMessage = None\<rparr>,
           updateProductivityIndicators pf pr
             (primary_record pr td (createPostToolUseContext pr td) sid m) d2,
           (if ctx_tool_name (createPostToolUseContext pr td) = ''Task''
            then [agent_metrics pr (createPostToolUseContext pr td) m
                    (object_assign (basic_metrics pr td (createPostToolUseContext pr td) sid) m)]
            else [])
           @ [primary_record pr td (createPostToolUseContext pr td) sid m])"
proof -
  let ?c = "createPostToolUseContext pr td"
  let ?md = "object_assign (basic_metrics pr td ?c sid) m"
  let ?calls = "if ctx_tool_name ?c = ''Task'' then [agent_metrics pr ?c m ?md] else []"
  obtain d1 where t: "track_agent a pr ?c m ?md d = (None, d1, ?calls)"
    using track_agent_calls [of a pr ?c m ?md d] by blast
  obtain out d2 where l: "logMetrics a pr (primary_record pr td ?c sid m) d1 = (Inr out, d2)"
    using logMetrics_returns by blast
  have "main_body a pf pr td d =
          (Inr \<lparr>rep_success = True,
                rep_executionTime = elapsed_ms pr,
                rep_memoryUsage = Some (heapUsed pr),
                rep_metrics =
                  Some \<lparr>sum_toolName = ctx_tool_name ?c,
                        successful = (ctx_error ?c = None),
                        metricsLogged = out_success out,
                        apiMethod = out_method out,
                        apiMessage = out_message out\<rparr>,
                rep_errorMessage = None\<rparr>,
           updateProductivityIndicators pf pr (primary_record pr td ?c sid m) d2,
           ?calls @ [primary_record pr td ?c sid m])"
    using l unfolding main_body_def Let_def sid ex sum.case t prod.case option.case
      sink_call_def primary_record_def fst_conv snd_conv
    by simp
  with t l show ?thesis by blast
qed

lemma resolved: "\<exists>sid. getCurrentSessionId pr d = Inr sid"
  by (simp add: getCurrentSessionId_def Let_def)

lemma extract_Task:
  "ctx_tool_name c = ''Task'' \<Longrightarrow>
   extractToolSpecificMetrics pf c =
     Inr (empty_object
       \<lparr>subagent_type :=
          Some (js_or (get_prop (ctx_tool_input c) ''subagent_type'') (JStr ''unknown'')),
        task_description :=
          Some (js_or (get_prop (ctx_tool_input c) ''description'') (JStr '''')),
        delegation := Some True\<rparr>)"
  by (simp add: extractToolSpecificMetrics_def Let_def)

lemma main_calls:
  assumes ex: "extractToolSpecificMetrics pf (createPostToolUseContext pr td) = Inr m"
    and sid: "getCurrentSessionId pr d = Inr sid"
  shows "snd (snd (main a pf pr td d)) =
     (if ctx_tool_name (createPostToolUseContext pr td) = ''Task''
      then [agent_metrics pr (createPostToolUseContext pr td) m
              (object_assign (basic_metrics pr td (createPostToolUseContext pr td) sid) m)]
      else [])
     @ [primary_record pr td (createPostToolUseContext pr td) sid m]"
proof -
  from main_body_run [OF ex sid, of a]
  obtain r d' where
    "main_body a pf pr td d =
       (Inr r, d',
        (if ctx_tool_name (createPostToolUseContext pr td) = ''Task''
         then [agent_metrics pr (createPostToolUseContext pr td) m
                 (object_assign (basic_metrics pr td (createPostToolUseContext pr td) sid) m)]
         else [])
        @ [primary_record pr td (createPostToolUseContext pr td) sid m])"
    by blast
  then show ?thesis by (simp add: main_def)
qed

lemma main_raises:
  assumes "extractToolSpecificMetrics pf (createPostToolUseContext pr td) = Inl e"
  shows "main a pf pr td d =
     (\<lparr>rep_success = False, rep_executionTime = elapsed_ms pr, rep_memoryUsage = None,
       rep_metrics = None, rep_errorMessage = Some (message e)\<rparr>, d, [])"
  by (simp add: main_def main_body_raises [OF assms])

subsection \<open>The records handed to the sink\<close>

lemma context_fields:
  "ctx_tool_name (createPostToolUseContext pr td) = str_or (toolName td) ''unknown''"
  "ctx_error (createPostToolUseContext pr td) = td_error td"
  by (simp_all add: createPostToolUseContext_def)

lemma agent_metrics_fields:
  "event_type (agent_metrics pr c m md) = Some ''agent_invocation''"
  "timestamp (agent_metrics pr c m md) = Some (now_iso pr)"
  "success (agent_metrics pr c m md) = Some (ctx_error c = None)"
  "execution_time_ms (agent_metrics pr c m md) = execution_time_ms md"
  "agent_name (agent_metrics pr c m md) = subagent_type m"
  "task_description (agent_metrics pr c m md) = task_description m"
  "tool_name (agent_metrics pr c m md) = None"
  "user (agent_metrics pr c m md) = None"
  "session_id (agent_metrics pr c m md) = None"
  by (simp_all add: agent_metrics_def empty_object_def)

lemma assigned_execution_time:
  assumes "extractToolSpecificMetrics pf c = Inr m"
  shows "execution_time_ms (object_assign (basic_metrics pr td c sid) m) =
     Some (js_round (case executionTime td of None \<Rightarrow> 0 | Some t \<Rightarrow> t))"
  using extract_basic_keys [OF assms]
  by (simp add: object_assign_def basic_metrics_def empty_object_def assign_key_def)

lemma sample_ill_typed_extract:
  "extractToolSpecificMetrics sample_platform
     (createPostToolUseContext sample_process ill_typed_edit_call)
   = Inl (TypeError ''split is not a function'')"
  by (simp add: extractToolSpecificMetrics_def createPostToolUseContext_def
      ill_typed_edit_call_def str_or_def get_prop_def js_or_def)



lemma sample_task_context:
  "ctx_tool_name (createPostToolUseContext sample_process task_call) = ''Task''"
  "ctx_tool_input (createPostToolUseContext sample_process task_call) =
     [(''subagent_type'', JStr ''frontend-developer''),
      (''description'', JStr ''Create component'')]"
  "ctx_error (createPostToolUseContext sample_process task_call) = None"
  by (simp_all add: createPostToolUseContext_def task_call_def str_or_def)

lemma sample_task_extract:
  "extractToolSpecificMetrics sample_platform
     (createPostToolUseContext sample_process task_call) =
   Inr (empty_object
     \<lparr>subagent_type := Some (JStr ''frontend-developer''),
      task_description := Some (JStr ''Create component''),
      delegation := Some True\<rparr>)"
  by (simp add: extract_Task sample_task_context get_prop_def js_or_def)

lemma sample_session: "getCurrentSessionId sample_process empty_disk = Inr ''default-session''"
  by (simp add: getCurrentSessionId_def falsy_string_def str_or_def Let_def
      sample_process_def empty_disk_def)


lemma extract_Task_keys:
  assumes "ctx_tool_name c = ''Task''" and "extractToolSpecificMetrics pf c = Inr m"
  shows "subagent_type m \<noteq> None" "task_description m \<noteq> None"
  using assms by (auto simp: extract_Task)

text \<open>
  Claim C5, amended. Every record handed to the sink is of one of two kinds. A primary
  \<^verbatim>\<open>tool_execution\<close> record carries the timestamp, the tool name (\<^verbatim>\<open>unknown\<close> when the
  invocation names none), the success flag, the execution time rounded to a millisecond,
  the user (\<^verbatim>\<open>unknown\<close> when the variable is unset or empty) and the resolved session
  identifier. A secondary \<^verbatim>\<open>agent_invocation\<close> record carries the timestamp, the success
  flag, the execution time, the agent name and the task description, and has no tool
  name, no user and no session identifier.
\<close>

theorem sink_record_fields:
  "r \<in> set (snd (snd (main a pf pr td d))) \<longrightarrow>
     (event_type r = Some ''tool_execution''
      \<and> timestamp r = Some (now_iso pr)
      \<and> tool_name r = Some (str_or (toolName td) ''unknown'')
      \<and> success r = Some (td_error td = None)
      \<and> execution_time_ms r =
          Some (js_round (case executionTime td of None \<Rightarrow> 0 | Some t \<Rightarrow> t))
      \<and> user r = Some (str_or (env_USER pr) ''unknown'')
      \<and> (\<exists>sid. getCurrentSessionId pr d = Inr sid \<and> session_id r = Some sid))
     \<or> (event_type r = Some ''agent_invocation''
      \<and> timestamp r = Some (now_iso pr)
      \<and> success r = Some (td_error td = None)
      \<and> execution_time_ms r =
          Some (js_round (case executionTime td of None \<Rightarrow> 0 | Some t \<Rightarrow> t))
      \<and> agent_name r \<noteq> None
      \<and> task_description r \<noteq> None
      \<and> tool_name r = None \<and> user r = None \<and> session_id r = None)"
proof
  let ?c = "createPostToolUseContext pr td"
  assume mem: "r \<in> set (snd (snd (main a pf pr td d)))"
  show "(event_type r = Some ''tool_execution''
      \<and> timestamp r = Some (now_iso pr)
      \<and> tool_name r = Some (str_or (toolName td) ''unknown'')
      \<and> success r = Some (td_error td = None)
      \<and> execution_time_ms r =
          Some (js_round (case executionTime td of None \<Rightarrow> 0 | Some t \<Rightarrow> t))
      \<and> user r = Some (str_or (env_USER pr) ''unknown'')
      \<and> (\<exists>sid. getCurrentSessionId pr d = Inr sid \<and> session_id r = Some sid))
     \<or> (event_type r = Some ''agent_invocation''
      \<and> timestamp r = Some (now_iso pr)
      \<and> success r = Some (td_error td = None)
      \<and> execution_time_ms r =
          Some (js_round (case executionTime td of None \<Rightarrow> 0 | Some t \<Rightarrow> t))
      \<and> agent_name r \<noteq> None
      \<and> task_description r \<noteq> None
      \<and> tool_name r = None \<and> user r = None \<and> session_id r = None)"
  proof (cases "extractToolSpecificMetrics pf ?c")
    case (Inl e)
    with mem show ?thesis by (simp add: main_raises)
  next
    case (Inr m)
    obtain sid where sid: "getCurrentSessionId pr d = Inr sid"
      using resolved by blast
    let ?md = "object_assign (basic_metrics pr td ?c sid) m"
    from mem main_calls [OF Inr sid, of a]
    consider (primary) "r = primary_record pr td ?c sid m"
      | (agent) "ctx_tool_name ?c = ''Task''" "r = agent_metrics pr ?c m ?md"
      by (auto split: if_splits)
    then show ?thesis
    proof cases
      case primary
      then show ?thesis
        using sid by (simp add: primary_record_basic [OF Inr] context_fields)
    next
      case agent
      then show ?thesis
        using extract_Task_keys [OF agent(1) Inr]
        by (simp add: agent_metrics_fields assigned_execution_time [OF Inr] context_fields)
    qed
  qed
qed

lemma sample_user: "env_USER sample_process = None"
  by (simp add: sample_process_def)

text \<open>
  Claim C5, as stated, fails. In a \<^verbatim>\<open>Task\<close> invocation the first record handed to the
  sink, the secondary \<^verbatim>\<open>agent_invocation\<close> record, has no tool name, no user and no
  session identifier.
\<close>

theorem sink_record_fields_counterexample:
  "map event_type
     (snd (snd (main offline_api sample_platform sample_process task_call empty_disk)))
     = [Some ''agent_invocation'', Some ''tool_execution'']
   \<and> map tool_name
     (snd (snd (main offline_api sample_platform sample_process task_call empty_disk)))
     = [None, Some ''Task'']
   \<and> map user
     (snd (snd (main offline_api sample_platform sample_process task_call empty_disk)))
     = [None, Some ''unknown'']
   \<and> map session_id
     (snd (snd (main offline_api sample_platform sample_process task_call empty_disk)))
     = [None, Some ''default-session'']"
  by (simp add: main_calls [OF sample_task_extract sample_session] sample_task_context
      agent_metrics_fields primary_record_basic [OF sample_task_extract]
      sample_user str_or_def)

theorem sink_record_fields_witness:
  "primary_record sample_process edit_call
       (createPostToolUseContext sample_process edit_call) ''default-session''
       (empty_object
         \<lparr>file_path := Some (JStr []), lines_added := Some 1, lines_removed := Some 2,
          net_lines := Some (- 1), replace_all := Some (JBool False)\<rparr>)
     \<in> set (snd (snd (main offline_api sample_platform sample_process edit_call empty_disk)))
   \<and> tool_name (primary_record sample_process edit_call
       (createPostToolUseContext sample_process edit_call) ''default-session''
       (empty_object
         \<lparr>file_path := Some (JStr []), lines_added := Some 1, lines_removed := Some 2,
          net_lines := Some (- 1), replace_all := Some (JBool False)\<rparr>)) = Some ''Edit''
   \<and> execution_time_ms (primary_record sample_process edit_call
       (createPostToolUseContext sample_process edit_call) ''default-session''
       (empty_object
         \<lparr>file_path := Some (JStr []), lines_added := Some 1, lines_removed := Some 2,
          net_lines := Some (- 1), replace_all := Some (JBool False)\<rparr>)) = Some 12
   \<and> session_id (primary_record sample_process edit_call
       (createPostToolUseContext sample_process edit_call) ''default-session''
       (empty_object
         \<lparr>file_path := Some (JStr []), lines_added := Some 1, lines_removed := Some 2,
          net_lines := Some (- 1), replace_all := Some (JBool False)\<rparr>))
       = Some ''default-session''"
proof -
  let ?r = "primary_record sample_process edit_call
       (createPostToolUseContext sample_process edit_call) ''default-session''
       (empty_object
         \<lparr>file_path := Some (JStr []), lines_added := Some 1, lines_removed := Some 2,
          net_lines := Some (- 1), replace_all := Some (JBool False)\<rparr>)"
  have mem: "?r \<in> set (snd (snd (main offline_api sample_platform sample_process edit_call
      empty_disk)))"
    by (simp add: main_calls [OF sample_edit_extract sample_session] sample_edit_context)
  have ty: "event_type ?r = Some ''tool_execution''"
    by (rule primary_record_basic(1) [OF sample_edit_extract])
  have rnd: "js_round 12.4 = 12"
    by (simp add: js_round_def)
  from sink_record_fields [of ?r offline_api sample_platform sample_process edit_call
      empty_disk] mem ty rnd
  show ?thesis
    by (simp add: edit_call_def str_or_def sample_session)
qed

subsection \<open>The report of the orchestrator\<close>

lemma main_report:
  assumes ex: "extractToolSpecificMetrics pf (createPostToolUseContext pr td) = Inr m"
    and sid: "getCurrentSessionId pr d = Inr sid"
  shows "\<exists>out d2.
      logMetrics a pr (primary_record pr td (createPostToolUseContext pr td) sid m)
        (if ctx_tool_name (createPostToolUseContext pr td) = ''Task''
         then snd (logMetrics a pr
                (agent_metrics pr (createPostToolUseContext pr td) m
                   (object_assign
                      (basic_metrics pr td (createPostToolUseContext pr td) sid) m)) d)
         else d)
        = (Inr out, d2)
      \<and> fst (main a pf pr td d) =
          \<lparr>rep_success = True,
           rep_executionTime = elapsed_ms pr,
           rep_memoryUsage = Some (heapUsed pr),
           rep_metrics =
             Some \<lparr>sum_toolName = str_or (toolName td) ''unknown'',
                   successful = (td_error td = None),
                   metricsLogged = out_success out,
                   apiMethod = out_method out,
                   apiMessage = out_message out\<rparr>,
           rep_errorMessage = None\<rparr>"
proof -
  let ?c = "createPostToolUseContext pr td"
  let ?md = "object_assign (basic_metrics pr td ?c sid) m"
  from main_body_run [OF ex sid, of a]
  obtain d1 out d2 calls where
    t: "track_agent a pr ?c m ?md d = (None, d1, calls)"
    and l: "logMetrics a pr (primary_record pr td ?c sid m) d1 = (Inr out, d2)"
    and b: "fst (main_body a pf pr td d) =
          Inr \<lparr>rep_success = True,
                rep_executionTime = elapsed_ms pr,
                rep_memoryUsage = Some (heapUsed pr),
                rep_metrics =
                  Some \<lparr>sum_toolName = ctx_tool_name ?c,
                        successful = (ctx_error ?c = None),
                        metricsLogged = out_success out,
                        apiMethod = out_method out,
                        apiMessage = out_message out\<rparr>,
                rep_errorMessage = None\<rparr>"
    by force
  from t track_agent_disk [of a pr ?c m ?md d]
  have d1: "d1 = (if ctx_tool_name ?c = ''Task''
      then snd (logMetrics a pr (agent_metrics pr ?c m ?md) d) else d)"
    by simp
  from b have "fst (main a pf pr td d) =
          \<lparr>rep_success = True,
           rep_executionTime = elapsed_ms pr,
           rep_memoryUsage = Some (heapUsed pr),
           rep_metrics =
             Some \<lparr>sum_toolName = str_or (toolName td) ''unknown'',
                   successful = (td_error td = None),
                   metricsLogged = out_success out,
                   apiMethod = out_method out,
                   apiMessage = out_message out\<rparr>,
           rep_errorMessage = None\<rparr>"
    by (cases "main_body a pf pr td d") (simp add: main_def context_fields)
  with l d1 show ?thesis by blast
qed

lemma logMetrics_fails:
  assumes "remote_submission a pr data d = (Inl err, d1)"
    and "localFallback pr data d1 = (Inl fe, d2)"
  shows "logMetrics a pr data d =
     (Inr \<lparr>out_success = False, out_method = ''local_fallback'',
           out_message = Some ''Both API and local storage failed'',
           out_error = Some (JStr (message fe))\<rparr>, d2)"
  using assms by (simp add: logMetrics_def fallback_attempt_def)

lemma logMetrics_both_fail:
  assumes "new_MetricsApiClient a = Some e" and "metrics_dir_fault d = Some fe"
  shows "logMetrics a pr data d =
     (Inr \<lparr>out_success = False, out_method = ''local_fallback'',
           out_message = Some ''Both API and local storage failed'',
           out_error = Some (JStr (message fe))\<rparr>, d)"
  using assms
  by (simp add: logMetrics_def fallback_attempt_def remote_submission_def localFallback_def)

lemma main_both_fail:
  assumes ex: "extractToolSpecificMetrics pf (createPostToolUseContext pr td) = Inr m"
    and api: "new_MetricsApiClient a = Some e"
    and disk: "metrics_dir_fault d = Some fe"
  shows "fst (main a pf pr td d) =
     \<lparr>rep_success = True,
      rep_executionTime = elapsed_ms pr,
      rep_memoryUsage = Some (heapUsed pr),
      rep_metrics =
        Some \<lparr>sum_toolName = str_or (toolName td) ''unknown'',
              successful = (td_error td = None),
              metricsLogged = False,
              apiMethod = ''local_fallback'',
              apiMessage = Some ''Both API and local storage failed''\<rparr>,
      rep_errorMessage = None\<rparr>"
proof -
  obtain sid where sid: "getCurrentSessionId pr d = Inr sid"
    using resolved by blast
  let ?c = "createPostToolUseContext pr td"
  let ?r = "primary_record pr td ?c sid m"
  let ?d1 = "if ctx_tool_name ?c = ''Task''
      then snd (logMetrics a pr
             (agent_metrics pr ?c m (object_assign (basic_metrics pr td ?c sid) m)) d)
      else d"
  from main_report [OF ex sid, of a]
  obtain out d2 where l: "logMetrics a pr ?r ?d1 = (Inr out, d2)"
    and r: "fst (main a pf pr td d) =
          \<lparr>rep_success = True,
           rep_executionTime = elapsed_ms pr,
           rep_memoryUsage = Some (heapUsed pr),
           rep_metrics =
             Some \<lparr>sum_toolName = str_or (toolName td) ''unknown'',
                   successful = (td_error td = None),
                   metricsLogged = out_success out,
                   apiMethod = out_method out,
                   apiMessage = out_message out\<rparr>,
           rep_errorMessage = None\<rparr>"
    by blast
  have "?d1 = d"
    by (simp add: logMetrics_both_fail [OF api disk])
  with l have "logMetrics a pr ?r d = (Inr out, d2)"
    by simp
  with logMetrics_both_fail [OF api disk, of pr ?r]
  have "out = \<lparr>out_success = False, out_method = ''local_fallback'',
           out_message = Some ''Both API and local storage failed'',
           out_error = Some (JStr (message fe))\<rparr>"
    by simp
  with r show ?thesis by simp
qed

text \<open>
  Claim C9. Whenever no exception leaves the body of \<^verbatim>\<open>main\<close>, the report is the one
  the body returns and its \<open>success\<close> is true, whatever the invocation's own error. The
  report's \<open>success\<close> is true exactly when the extraction returns: neither the outcome
  of the sink nor the error of the invocation enters it. In every call whose extraction
  returns, the report is determined: \<open>metricsLogged\<close>, the method and the message are
  those of the outcome that the sink returns for the primary record (on the disk as the
  sink left it after the record of the delegation, for \<^verbatim>\<open>Task\<close>), and \<open>successful\<close>
  tells whether the invocation carried no error. So whenever the sink fails on both
  paths, the remote submission and the local fallback throwing, the report has
  \<open>success = true\<close> with \<open>metricsLogged = false\<close>; so it has when the client cannot be
  built and the metrics directory cannot be created.
\<close>

theorem report_success:
  "(fst (main_body a pf pr td d) = Inr r \<longrightarrow>
      fst (main a pf pr td d) = r \<and> rep_success r
      \<and> (\<exists>s. rep_metrics r = Some s \<and> successful s = (td_error td = None)))
   \<and> (rep_success (fst (main a pf pr td d)) =
        (\<exists>m'. extractToolSpecificMetrics pf (createPostToolUseContext pr td) = Inr m'))
   \<and> (extractToolSpecificMetrics pf (createPostToolUseContext pr td) = Inr m
        \<and> new_MetricsApiClient a = Some e \<and> metrics_dir_fault d = Some fe \<longrightarrow>
        rep_success (fst (main a pf pr td d))
        \<and> map_option metricsLogged (rep_metrics (fst (main a pf pr td d))) = Some False
        \<and> map_option successful (rep_metrics (fst (main a pf pr td d)))
            = Some (td_error td = None))
   \<and> (extractToolSpecificMetrics pf (createPostToolUseContext pr td) = Inr m \<longrightarrow>
        (\<exists>sid out d2.
           getCurrentSessionId pr d = Inr sid
           \<and> logMetrics a pr (primary_record pr td (createPostToolUseContext pr td) sid m)
               (if ctx_tool_name (createPostToolUseContext pr td) = ''Task''
                then snd (logMetrics a pr
                       (agent_metrics pr (createPostToolUseContext pr td) m
                          (object_assign
                             (basic_metrics pr td (createPostToolUseContext pr td) sid) m))
                       d)
                else d)
               = (Inr out, d2)
           \<and> fst (main a pf pr td d) =
               \<lparr>rep_success = True,
                rep_executionTime = elapsed_ms pr,
                rep_memoryUsage = Some (heapUsed pr),
                rep_metrics =
                  Some \<lparr>sum_toolName = str_or (toolName td) ''unknown'',
                        successful = (td_error td = None),
                        metricsLogged = out_success out,
                        apiMethod = out_method out,
                        apiMessage = out_message out\<rparr>,
                rep_errorMessage = None\<rparr>))
   \<and> (extractToolSpecificMetrics pf (createPostToolUseContext pr td) = Inr m
        \<and> ctx_tool_name (createPostToolUseContext pr td) \<noteq> ''Task''
        \<and> getCurrentSessionId pr d = Inr sid'
        \<and> remote_submission a pr
             (primary_record pr td (createPostToolUseContext pr td) sid' m) d = (Inl err, d1)
        \<and> localFallback pr
             (primary_record pr td (createPostToolUseContext pr td) sid' m) d1 = (Inl fe', d2')
        \<longrightarrow>
        rep_success (fst (main a pf pr td d))
        \<and> map_option metricsLogged (rep_metrics (fst (main a pf pr td d))) = Some False)"
proof -
  let ?c = "createPostToolUseContext pr td"
  obtain sid where sid: "getCurrentSessionId pr d = Inr sid"
    using resolved by blast
  have run: "\<exists>r' w. main_body a pf pr td d = (Inr r', w) \<and> rep_success r'
      \<and> (\<exists>s. rep_metrics r' = Some s \<and> successful s = (td_error td = None))"
    if ex: "extractToolSpecificMetrics pf ?c = Inr m'" for m'
    using main_body_run [OF ex sid, of a] by (force simp: context_fields)
  have a: "fst (main_body a pf pr td d) = Inr r \<longrightarrow>
      fst (main a pf pr td d) = r \<and> rep_success r
      \<and> (\<exists>s. rep_metrics r = Some s \<and> successful s = (td_error td = None))"
  proof (cases "extractToolSpecificMetrics pf ?c")
    case (Inl x)
    then show ?thesis by (simp add: main_body_raises)
  next
    case (Inr m')
    from run [OF Inr] show ?thesis by (auto simp: main_def)
  qed
  have b: "rep_success (fst (main a pf pr td d)) =
        (\<exists>m'. extractToolSpecificMetrics pf ?c = Inr m')"
  proof (cases "extractToolSpecificMetrics pf ?c")
    case (Inl x)
    then show ?thesis by (simp add: main_raises)
  next
    case (Inr m')
    from run [OF Inr] Inr show ?thesis by (auto simp: main_def)
  qed
  have c: "extractToolSpecificMetrics pf ?c = Inr m
        \<and> new_MetricsApiClient a = Some e \<and> metrics_dir_fault d = Some fe \<longrightarrow>
        rep_success (fst (main a pf pr td d))
        \<and> map_option metricsLogged (rep_metrics (fst (main a pf pr td d))) = Some False
        \<and> map_option successful (rep_metrics (fst (main a pf pr td d)))
            = Some (td_error td = None)"
    by (simp add: main_both_fail)
  have l: "extractToolSpecificMetrics pf ?c = Inr m \<longrightarrow>
        (\<exists>sid out d2.
           getCurrentSessionId pr d = Inr sid
           \<and> logMetrics a pr (primary_record pr td ?c sid m)
               (if ctx_tool_name ?c = ''Task''
                then snd (logMetrics a pr
                       (agent_metrics pr ?c m
                          (object_assign (basic_metrics pr td ?c sid) m)) d)
                else d)
               = (Inr out, d2)
           \<and> fst (main a pf pr td d) =
               \<lparr>rep_success = True,
                rep_executionTime = elapsed_ms pr,
                rep_memoryUsage = Some (heapUsed pr),
                rep_metrics =
                  Some \<lparr>sum_toolName = str_or (toolName td) ''unknown'',
                        successful = (td_error td = None),
                        metricsLogged = out_success out,
                        apiMethod = out_method out,
                        apiMessage = out_message out\<rparr>,
                rep_errorMessage = None\<rparr>)"
  proof
    assume ex: "extractToolSpecificMetrics pf ?c = Inr m"
    from main_report [OF ex sid, of a] sid
    show "\<exists>sid out d2.
           getCurrentSessionId pr d = Inr sid
           \<and> logMetrics a pr (primary_record pr td ?c sid m)
               (if ctx_tool_name ?c = ''Task''
                then snd (logMetrics a pr
                       (agent_metrics pr ?c m
                          (object_assign (basic_metrics pr td ?c sid) m)) d)
                else d)
               = (Inr out, d2)
           \<and> fst (main a pf pr td d) =
               \<lparr>rep_success = True,
                rep_executionTime = elapsed_ms pr,
                rep_memoryUsage = Some (heapUsed pr),
                rep_metrics =
                  Some \<lparr>sum_toolName = str_or (toolName td) ''unknown'',
                        successful = (td_error td = None),
                        metricsLogged = out_success out,
                        apiMethod = out_method out,
                        apiMessage = out_message out\<rparr>,
                rep_errorMessage = None\<rparr>"
      by blast
  qed
  have f: "extractToolSpecificMetrics pf ?c = Inr m
        \<and> ctx_tool_name ?c \<noteq> ''Task''
        \<and> getCurrentSessionId pr d = Inr sid'
        \<and> remote_submission a pr (primary_record pr td ?c sid' m) d = (Inl err, d1)
        \<and> localFallback pr (primary_record pr td ?c sid' m) d1 = (Inl fe', d2')
        \<longrightarrow>
        rep_success (fst (main a pf pr td d))
        \<and> map_option metricsLogged (rep_metrics (fst (main a pf pr td d))) = Some False"
  proof
    assume h: "extractToolSpecificMetrics pf ?c = Inr m
        \<and> ctx_tool_name ?c \<noteq> ''Task''
        \<and> getCurrentSessionId pr d = Inr sid'
        \<and> remote_submission a pr (primary_record pr td ?c sid' m) d = (Inl err, d1)
        \<and> localFallback pr (primary_record pr td ?c sid' m) d1 = (Inl fe', d2')"
    then have ex: "extractToolSpecificMetrics pf ?c = Inr m"
      and nt: "ctx_tool_name ?c \<noteq> ''Task''"
      and sid': "getCurrentSessionId pr d = Inr sid'"
      and rs: "remote_submission a pr (primary_record pr td ?c sid' m) d = (Inl err, d1)"
      and lf: "localFallback pr (primary_record pr td ?c sid' m) d1 = (Inl fe', d2')"
      by simp_all
    from main_report [OF ex sid', of a] nt logMetrics_fails [OF rs lf]
    show "rep_success (fst (main a pf pr td d))
        \<and> map_option metricsLogged (rep_metrics (fst (main a pf pr td d))) = Some False"
      by auto
  qed
  from a b c l f show ?thesis by blast
qed

lemma sample_failed_bash_extract:
  "extractToolSpecificMetrics sample_platform
     (createPostToolUseContext sample_process failed_bash_call) =
   Inr (empty_object
     \<lparr>command := Some (JStr ''npm test''), command_type := Some (JStr ''npm''),
      background := Some (JBool False), timeout := Some JNull\<rparr>)"
  using extract_Bash [of "createPostToolUseContext sample_process failed_bash_call"
      "''npm test''" sample_platform]
  by (simp add: createPostToolUseContext_def failed_bash_call_def str_or_def get_prop_def
      js_or_def space_def)

lemma sample_failed_bash_tool:
  "ctx_tool_name (createPostToolUseContext sample_process failed_bash_call) = ''Bash''"
  by (simp add: createPostToolUseContext_def failed_bash_call_def str_or_def)

lemma sample_readonly_session:
  "getCurrentSessionId sample_process readonly_disk = Inr ''default-session''"
  by (simp add: getCurrentSessionId_def falsy_string_def str_or_def Let_def
      sample_process_def readonly_disk_def empty_disk_def)

theorem report_success_witness:
  "td_error failed_bash_call = Some ''Error: Simulated tool failure''
   \<and> rep_success
       (fst (main broken_api sample_platform sample_process failed_bash_call readonly_disk))
   \<and> map_option metricsLogged
       (rep_metrics
          (fst (main broken_api sample_platform sample_process failed_bash_call
             readonly_disk))) = Some False
   \<and> map_option successful
       (rep_metrics
          (fst (main broken_api sample_platform sample_process failed_bash_call
             readonly_disk))) = Some False
   \<and> rep_success
       (fst (main offline_api sample_platform sample_process failed_bash_call readonly_disk))
   \<and> map_option metricsLogged
       (rep_metrics
          (fst (main offline_api sample_platform sample_process failed_bash_call
             readonly_disk))) = Some False
   \<and> map_option metricsLogged
       (rep_metrics
          (fst (main offline_api sample_platform sample_process failed_bash_call
             empty_disk))) = Some True
   \<and> \<not> rep_success
       (fst (main broken_api sample_platform sample_process ill_typed_edit_call
          readonly_disk))"
proof -
  let ?c = "createPostToolUseContext sample_process failed_bash_call"
  let ?m = "empty_object
           \<lparr>command := Some (JStr ''npm test''), command_type := Some (JStr ''npm''),
            background := Some (JBool False), timeout := Some JNull\<rparr>"
  let ?r = "primary_record sample_process failed_bash_call ?c ''default-session'' ?m"
  have api: "new_MetricsApiClient broken_api
      = Some (ErrorObject (TypeError ''MetricsApiClient is not a constructor''))"
    by (simp add: broken_api_def)
  have disk: "metrics_dir_fault readonly_disk = Some (IOError ''EACCES'')"
    by (simp add: readonly_disk_def)
  have err: "td_error failed_bash_call = Some ''Error: Simulated tool failure''"
    by (simp add: failed_bash_call_def)
  have rs: "remote_submission offline_api sample_process ?r readonly_disk
      = (Inl (ErrorObject (IOError ''ECONNREFUSED'')), readonly_disk)"
    by (simp add: remote_submission_def offline_api_def)
  have lf: "localFallback sample_process ?r readonly_disk
      = (Inl (IOError ''EACCES''), readonly_disk)"
    by (simp add: localFallback_def readonly_disk_def empty_disk_def)
  have ok: "logMetrics offline_api sample_process ?r empty_disk =
      (Inr \<lparr>out_success = True, out_method = ''local_fallback'',
            out_message = Some ''API client failed, data stored locally'',
            out_error = Some (JStr ''ECONNREFUSED'')\<rparr>,
       empty_disk\<lparr>tool_metrics_jsonl := [?r],
         activity_log := [activity_line sample_process ?r]\<rparr>)"
    by (simp add: logMetrics_def fallback_attempt_def remote_submission_def offline_api_def
        localFallback_def empty_disk_def)
  show ?thesis
    using report_success [where a = broken_api and pf = sample_platform
        and pr = sample_process and td = failed_bash_call and d = readonly_disk
        and m = ?m and e = "ErrorObject (TypeError ''MetricsApiClient is not a constructor'')"
        and fe = "IOError ''EACCES''"]
      report_success [where a = offline_api and pf = sample_platform
        and pr = sample_process and td = failed_bash_call and d = readonly_disk
        and m = ?m and sid' = "''default-session''"
        and err = "ErrorObject (IOError ''ECONNREFUSED'')" and ?d1.0 = readonly_disk
        and fe' = "IOError ''EACCES''" and d2' = readonly_disk]
      report_success [where a = offline_api and pf = sample_platform
        and pr = sample_process and td = failed_bash_call and d = empty_disk and m = ?m]
      report_success [where a = broken_api and pf = sample_platform
        and pr = sample_process and td = ill_typed_edit_call and d = readonly_disk]
    by (auto simp: sample_failed_bash_extract sample_ill_typed_extract api disk err
        sample_failed_bash_tool sample_readonly_session sample_session rs lf ok)
qed

end
